theory Spec2Isabelle
  imports Complex_Main
begin

section \<open>Text primitives of the host language\<close>

text \<open>
  A text is a list of characters; every character stands for the UTF-16 code unit of the
  same value, so the model covers texts whose code units are below 256. The predicates
  below are the character classes the source's regular expressions and string methods
  use: \<open>\s\<close> and \<open>trim\<close> (white space and line terminators), the line terminators that
  \<open>.\<close> does not match, \<open>\d\<close>, and the class \<open>[A-Za-z0-9/_-]\<close>.
\<close>

definition isSpace :: "char \<Rightarrow> bool" where
  "isSpace c = (of_char c \<in> {9, 10, 11, 12, 13, 32, 160 :: nat})"

definition isLineTerminator :: "char \<Rightarrow> bool" where
  "isLineTerminator c = (of_char c \<in> {10, 13 :: nat})"

definition isDigit :: "char \<Rightarrow> bool" where
  "isDigit c = (48 \<le> (of_char c :: nat) \<and> (of_char c :: nat) \<le> 57)"

definition isAsciiLetter :: "char \<Rightarrow> bool" where
  "isAsciiLetter c = ((65 \<le> (of_char c :: nat) \<and> (of_char c :: nat) \<le> 90) \<or>
                      (97 \<le> (of_char c :: nat) \<and> (of_char c :: nat) \<le> 122))"

definition tagChar :: "char \<Rightarrow> bool" where
  "tagChar c = (isAsciiLetter c \<or> isDigit c \<or> c = CHR ''/'' \<or> c = CHR ''_'' \<or> c = CHR ''-'')"

definition isUpper :: "char \<Rightarrow> bool" where
  "isUpper c = ((65 \<le> (of_char c :: nat) \<and> (of_char c :: nat) \<le> 90) \<or>
                (192 \<le> (of_char c :: nat) \<and> (of_char c :: nat) \<le> 222 \<and> (of_char c :: nat) \<noteq> 215))"

text \<open>Lower-casing an upper-case code unit below 256 adds 32, that is, sets bit 5.\<close>

definition lowerChar :: "char \<Rightarrow> char" where
  "lowerChar c = (if isUpper c
     then (case c of Char b0 b1 b2 b3 b4 b5 b6 b7 \<Rightarrow> Char b0 b1 b2 b3 b4 True b6 b7)
     else c)"

definition toLowerCase :: "string \<Rightarrow> string" where
  "toLowerCase s = map lowerChar s"

definition trimStart :: "string \<Rightarrow> string" where
  "trimStart s = dropWhile isSpace s"

definition trimEnd :: "string \<Rightarrow> string" where
  "trimEnd s = rev (dropWhile isSpace (rev s))"

definition trim :: "string \<Rightarrow> string" where
  "trim s = trimEnd (trimStart s)"

definition startsWith :: "string \<Rightarrow> string \<Rightarrow> bool" where
  "startsWith s p = (take (length p) s = p)"

fun includesStr :: "string \<Rightarrow> string \<Rightarrow> bool" where
  "includesStr [] q = (q = [])"
| "includesStr (c # cs) q = (startsWith (c # cs) q \<or> includesStr cs q)"

fun join :: "string \<Rightarrow> string list \<Rightarrow> string" where
  "join sep [] = []"
| "join sep [x] = x"
| "join sep (x # y # ys) = x @ sep @ join sep (y # ys)"

text \<open>\<open>split('\n')\<close>: the empty text splits into one empty line.\<close>

fun splitLines :: "string \<Rightarrow> string list" where
  "splitLines [] = [[]]"
| "splitLines (c # cs) =
     (if c = CHR ''\<newline>'' then [] # splitLines cs
      else (case splitLines cs of [] \<Rightarrow> [[c]] | l # ls \<Rightarrow> (c # l) # ls))"

text \<open>\<open>content.replace(/\r\n/g, '\n')\<close>\<close>

fun normalizeNewlines :: "string \<Rightarrow> string" where
  "normalizeNewlines [] = []"
| "normalizeNewlines [c] = [c]"
| "normalizeNewlines (c # d # cs) =
     (if c = CHR 0x0D \<and> d = CHR ''\<newline>'' then CHR ''\<newline>'' # normalizeNewlines cs
      else c # normalizeNewlines (d # cs))"

text \<open>\<open>findIndex\<close>, with \<open>None\<close> for the result -1; \<open>find\<close> is \<open>List.find\<close>.\<close>

fun findIndex :: "('a \<Rightarrow> bool) \<Rightarrow> 'a list \<Rightarrow> nat option" where
  "findIndex P [] = None"
| "findIndex P (x # xs) =
     (if P x then Some 0 else (case findIndex P xs of None \<Rightarrow> None | Some i \<Rightarrow> Some (Suc i)))"

text \<open>\<open>xs.splice(i, 1)\<close> for an index in range, and \<open>xs.splice(i, 0, x)\<close> for any integer
  index: a negative index counts from the end, and the result is clamped to the list.\<close>

definition spliceRemove :: "nat \<Rightarrow> 'a list \<Rightarrow> 'a list" where
  "spliceRemove i xs = take i xs @ drop (Suc i) xs"

definition spliceInsert :: "int \<Rightarrow> 'a \<Rightarrow> 'a list \<Rightarrow> 'a list" where
  "spliceInsert i x xs =
     (let n = int (length xs);
          start = (if i < 0 then max (n + i) 0 else min i n)
      in take (nat start) xs @ [x] @ drop (nat start) xs)"

text \<open>\<open>new Set\<close> keeps the first occurrence of every value, in insertion order.\<close>

definition setAdd :: "'a list \<Rightarrow> 'a \<Rightarrow> 'a list" where
  "setAdd xs x = (if x \<in> set xs then xs else xs @ [x])"

definition newSet :: "'a list \<Rightarrow> 'a list" where
  "newSet xs = foldl setAdd [] xs"

text \<open>\<open>Array.prototype.sort\<close> with a comparator is a stable sort.\<close>

fun insertSorted :: "('a \<Rightarrow> 'a \<Rightarrow> int) \<Rightarrow> 'a \<Rightarrow> 'a list \<Rightarrow> 'a list" where
  "insertSorted cmp x [] = [x]"
| "insertSorted cmp x (y # ys) =
     (if cmp x y \<le> 0 then x # y # ys else y # insertSorted cmp x ys)"

definition sortBy :: "('a \<Rightarrow> 'a \<Rightarrow> int) \<Rightarrow> 'a list \<Rightarrow> 'a list" where
  "sortBy cmp xs = foldr (insertSorted cmp) xs []"

text \<open>Numbers: the finite ones as rationals (the two zeros are one), and the three
  special values.\<close>

datatype number = Finite rat | PosInfinity | NegInfinity | NaN

definition mathFloor :: "number \<Rightarrow> number" where
  "mathFloor n = (case n of Finite q \<Rightarrow> Finite (of_int \<lfloor>q\<rfloor>) | _ \<Rightarrow> n)"

definition geZero :: "number \<Rightarrow> bool" where
  "geZero n = (case n of Finite q \<Rightarrow> 0 \<le> q | PosInfinity \<Rightarrow> True | _ \<Rightarrow> False)"

section \<open>What the program takes from its environment\<close>

text \<open>
  The header block is decoded and encoded by the \<open>yaml\<close> package, tags are ordered by
  \<open>String.prototype.localeCompare\<close>, and fresh identifiers are built from the clock and
  the random number generator. None of the three is code of the repository; the model
  takes them as a parameter. \<open>idSuffix n\<close> is the text \<open>stamp-random\<close> of the \<open>n\<close>-th
  call of \<open>createId\<close>.
\<close>

datatype yaml =
    YNull
  | YBool bool
  | YNum number
  | YStr string
  | YSeq "yaml list"
  | YMap "(string \<times> yaml) list"

datatype yamlResult = YamlThrows | YamlValue yaml

record runtime =
  parseYaml :: "string \<Rightarrow> yamlResult"
  stringifyYaml :: "yaml \<Rightarrow> string"
  localeCompare :: "string \<Rightarrow> string \<Rightarrow> int"
  idSuffix :: "nat \<Rightarrow> string"

text \<open>\<open>createId(prefix)\<close>; the counter of calls is the state.\<close>

definition createId :: "runtime \<Rightarrow> string \<Rightarrow> nat \<Rightarrow> string \<times> nat" where
  "createId E prefix n = (prefix @ ''-'' @ idSuffix E n, Suc n)"

section \<open>The data model (model/types.ts)\<close>

datatype CardDensity = Normal | Compact

record Card =
  card_id :: string
  card_title :: string
  card_description :: string
  card_checked :: bool
  card_dueDate :: "string option"
  card_tags :: "string list"
  card_searchText :: string

record Column =
  col_id :: string
  col_title :: string
  col_wipLimit :: "number option"
  col_cards :: "Card list"

record BoardDocument =
  boardTitle :: string
  boardDescription :: string
  density :: CardDensity
  columns :: "Column list"
  archive :: "Card list"

record BoardFilter =
  query :: string
  tag :: string

record BoardStoreSnapshot =
  snapshotBoard :: BoardDocument
  snapshotFilter :: BoardFilter
  visibleColumns :: "Column list"
  allTags :: "string list"

section \<open>Card normalization (model/card.ts)\<close>

text \<open>
  \<open>tagRegex = /(^|\s)#([A-Za-z0-9/_-]+)/g\<close>, run by the \<open>exec\<close> loop of \<open>extractTags\<close>.
  \<open>tagExec atStart s\<close> lists the second group of every match in the rest \<open>s\<close> of the
  text; \<open>atStart\<close> says that \<open>s\<close> is the whole text, where \<open>^\<close> matches. A match
  consumes the white space in front of the \<open>#\<close> and the longest run of tag characters
  after it, and the search goes on behind the match.
\<close>

function tagExec :: "bool \<Rightarrow> string \<Rightarrow> string list" where
  "tagExec atStart [] = []"
| "tagExec atStart (c # cs) =
    (if atStart \<and> c = CHR ''#'' \<and> takeWhile tagChar cs \<noteq> [] then
       takeWhile tagChar cs # tagExec False (dropWhile tagChar cs)
     else if isSpace c \<and> (case cs of [] \<Rightarrow> False | d # r \<Rightarrow> d = CHR ''#'' \<and> takeWhile tagChar r \<noteq> []) then
       takeWhile tagChar (tl cs) # tagExec False (dropWhile tagChar (tl cs))
     else tagExec False cs)"
  by pat_completeness auto
termination
proof (relation "measure (\<lambda>(a, s). length s)")
  show "wf (measure (\<lambda>(a :: bool, s :: string). length s))" by simp
next
  fix atStart :: bool and c :: char and cs :: string
  have "length (dropWhile tagChar cs) \<le> length cs" by (rule length_dropWhile_le)
  then show "((False, dropWhile tagChar cs), (atStart, c # cs)) \<in> measure (\<lambda>(a, s). length s)"
    by simp
next
  fix atStart :: bool and c :: char and cs :: string
  have "length (dropWhile tagChar (tl cs)) \<le> length (tl cs)" by (rule length_dropWhile_le)
  then show "((False, dropWhile tagChar (tl cs)), (atStart, c # cs)) \<in> measure (\<lambda>(a, s). length s)"
    by simp
next
  fix atStart :: bool and c :: char and cs :: string
  show "((False, cs), (atStart, c # cs)) \<in> measure (\<lambda>(a, s). length s)" by simp
qed

definition extractTags :: "runtime \<Rightarrow> string \<Rightarrow> string list" where
  "extractTags E text =
     sortBy (localeCompare E)
       (newSet (map (\<lambda>tagBody. CHR ''#'' # toLowerCase tagBody)
                    (filter (\<lambda>tagBody. tagBody \<noteq> []) (tagExec True text))))"

text \<open>\<open>dueRegex = /^\d{4}-\d{2}-\d{2}$/\<close>\<close>

definition dueRegex :: "string \<Rightarrow> bool" where
  "dueRegex s = (case s of
       [y1, y2, y3, y4, s1, m1, m2, s2, d1, d2] \<Rightarrow>
         isDigit y1 \<and> isDigit y2 \<and> isDigit y3 \<and> isDigit y4 \<and> s1 = CHR ''-'' \<and>
         isDigit m1 \<and> isDigit m2 \<and> s2 = CHR ''-'' \<and> isDigit d1 \<and> isDigit d2
     | _ \<Rightarrow> False)"

definition normalizeDueDate :: "string option \<Rightarrow> string option" where
  "normalizeDueDate v = (case v of
       None \<Rightarrow> None
     | Some s \<Rightarrow> if s = [] then None
                else if \<not> dueRegex (trim s) then None
                else Some (trim s))"

definition normalizeTagFilter :: "string \<Rightarrow> string" where
  "normalizeTagFilter t =
     (let normalized = toLowerCase (trim t)
      in if normalized = [] then []
         else if startsWith normalized ''#'' then normalized
         else CHR ''#'' # normalized)"

definition buildSearchText :: "string \<Rightarrow> string \<Rightarrow> string list \<Rightarrow> string option \<Rightarrow> string" where
  "buildSearchText title description tags dueDate =
     toLowerCase (join ''\<newline>''
       [title, description, join '' '' tags, (case dueDate of None \<Rightarrow> [] | Some d \<Rightarrow> d)])"

text \<open>\<open>normalizeCard\<close> ignores the derived fields of its argument and sets them anew.\<close>

definition normalizeCard :: "runtime \<Rightarrow> Card \<Rightarrow> Card" where
  "normalizeCard E input =
     (let dueDate = normalizeDueDate (card_dueDate input);
          tags = extractTags E (card_title input @ ''\<newline>'' @ card_description input)
      in \<lparr> card_id = card_id input,
           card_title = card_title input,
           card_description = card_description input,
           card_checked = card_checked input,
           card_dueDate = dueDate,
           card_tags = tags,
           card_searchText =
             buildSearchText (card_title input) (card_description input) tags dueDate \<rparr>)"

section \<open>The board store (state/BoardStore.ts)\<close>

text \<open>
  The store owns one document and one filter. Its subscribers are left out of the state:
  \<open>emit\<close> only hands them the snapshot, so a store whose subscribers do not call back
  into it behaves as the functions below.
\<close>

definition cloneCard :: "runtime \<Rightarrow> Card \<Rightarrow> Card" where
  "cloneCard E crd =
     normalizeCard E \<lparr> card_id = card_id crd, card_title = card_title crd,
                      card_description = card_description crd, card_checked = card_checked crd,
                      card_dueDate = card_dueDate crd, card_tags = [], card_searchText = [] \<rparr>"

definition cloneBoard :: "runtime \<Rightarrow> BoardDocument \<Rightarrow> BoardDocument" where
  "cloneBoard E b =
     \<lparr> boardTitle = boardTitle b,
       boardDescription = boardDescription b,
       density = density b,
       columns = map (\<lambda>column.
           \<lparr> col_id = col_id column, col_title = col_title column,
             col_wipLimit = (case col_wipLimit column of Some n \<Rightarrow> Some n | None \<Rightarrow> None),
             col_cards = map (cloneCard E) (col_cards column) \<rparr>) (columns b),
       archive = map (cloneCard E) (archive b) \<rparr>"

definition sortUnique :: "runtime \<Rightarrow> string list \<Rightarrow> string list" where
  "sortUnique E values = sortBy (localeCompare E) (newSet values)"

record BoardStore =
  board :: BoardDocument
  boardFilter :: BoardFilter

datatype Placement = Top | Bottom

datatype Position = Before | After


definition getBoard :: "runtime \<Rightarrow> BoardStore \<Rightarrow> BoardDocument" where
  "getBoard E S = cloneBoard E (board S)"


definition setFilterQuery :: "string \<Rightarrow> BoardStore \<Rightarrow> BoardStore" where
  "setFilterQuery q S = S\<lparr> boardFilter := (boardFilter S)\<lparr> query := q \<rparr> \<rparr>"

definition setFilterTag :: "string \<Rightarrow> BoardStore \<Rightarrow> BoardStore" where
  "setFilterTag t S = S\<lparr> boardFilter := (boardFilter S)\<lparr> tag := normalizeTagFilter t \<rparr> \<rparr>"


definition setBoardMetadata :: "string \<Rightarrow> string \<Rightarrow> CardDensity \<Rightarrow> BoardStore \<Rightarrow> BoardStore" where
  "setBoardMetadata payloadTitle payloadDescription payloadDensity S =
     S\<lparr> board := (board S)
          \<lparr> boardTitle := (if trim payloadTitle \<noteq> [] then trim payloadTitle
                            else boardTitle (board S)),
            boardDescription := trim payloadDescription,
            density := payloadDensity \<rparr> \<rparr>"


definition renameColumn :: "string \<Rightarrow> string \<Rightarrow> BoardStore \<Rightarrow> BoardStore" where
  "renameColumn columnId title S =
     S\<lparr> board := (board S)
          \<lparr> columns := map (\<lambda>column.
               if col_id column = columnId
               then column\<lparr> col_title := (if trim title \<noteq> [] then trim title
                                            else col_title column) \<rparr>
               else column) (columns (board S)) \<rparr> \<rparr>"

definition setColumnWipLimit :: "string \<Rightarrow> number option \<Rightarrow> BoardStore \<Rightarrow> BoardStore" where
  "setColumnWipLimit columnId limit S =
     S\<lparr> board := (board S)
          \<lparr> columns := map (\<lambda>column.
               if col_id column = columnId
               then column\<lparr> col_wipLimit :=
                      (case limit of
                         Some n \<Rightarrow> if geZero n then Some (mathFloor n) else None
                       | None \<Rightarrow> None) \<rparr>
               else column) (columns (board S)) \<rparr> \<rparr>"

definition deleteColumn :: "string \<Rightarrow> BoardStore \<Rightarrow> BoardStore" where
  "deleteColumn columnId S =
     S\<lparr> board := (board S)
          \<lparr> columns := filter (\<lambda>column. col_id column \<noteq> columnId) (columns (board S)) \<rparr> \<rparr>"

definition moveColumn :: "string \<Rightarrow> int \<Rightarrow> BoardStore \<Rightarrow> BoardStore" where
  "moveColumn sourceColumnId targetIndex S =
     (case findIndex (\<lambda>column. col_id column = sourceColumnId) (columns (board S)) of
        None \<Rightarrow> S
      | Some sourceIndex \<Rightarrow>
          (let moved = columns (board S) ! sourceIndex;
               remaining = spliceRemove sourceIndex (columns (board S));
               nextIndex = max 0 (min targetIndex (int (length remaining)))
           in S\<lparr> board := (board S)\<lparr> columns := spliceInsert nextIndex moved remaining \<rparr> \<rparr>))"

definition addCard :: "string \<Rightarrow> Card \<Rightarrow> Placement \<Rightarrow> BoardStore \<Rightarrow> BoardStore" where
  "addCard columnId newCard placement S =
     S\<lparr> board := (board S)
          \<lparr> columns := map (\<lambda>column.
               if col_id column \<noteq> columnId then column
               else column\<lparr> col_cards := (if placement = Top then newCard # col_cards column
                                            else col_cards column @ [newCard]) \<rparr>)
             (columns (board S)) \<rparr> \<rparr>"

text \<open>The operations that return a count give it together with the new store.\<close>

definition insertCardsFromParsedLines ::
  "string \<Rightarrow> Card list \<Rightarrow> Position \<Rightarrow> BoardStore \<Rightarrow> nat \<times> BoardStore" where
  "insertCardsFromParsedLines columnId cards position S =
     (if length cards = 0 then (0, S)
      else (length cards,
            S\<lparr> board := (board S)
                 \<lparr> columns := map (\<lambda>column.
                      if col_id column \<noteq> columnId then column
                      else column\<lparr> col_cards := (if position = Before then cards @ col_cards column
                                                   else col_cards column @ cards) \<rparr>)
                    (columns (board S)) \<rparr> \<rparr>))"

definition updateCard ::
  "runtime \<Rightarrow> string \<Rightarrow> string \<Rightarrow> (Card \<Rightarrow> Card) \<Rightarrow> BoardStore \<Rightarrow> BoardStore" where
  "updateCard E columnId cardId updater S =
     S\<lparr> board := (board S)
          \<lparr> columns := map (\<lambda>column.
               if col_id column \<noteq> columnId then column
               else column\<lparr> col_cards := map (\<lambda>card.
                      if card_id card \<noteq> cardId then card
                      else cloneCard E (updater card)) (col_cards column) \<rparr>)
             (columns (board S)) \<rparr> \<rparr>"

definition deleteCard :: "string \<Rightarrow> string \<Rightarrow> BoardStore \<Rightarrow> BoardStore" where
  "deleteCard columnId cardId S =
     S\<lparr> board := (board S)
          \<lparr> columns := map (\<lambda>column.
               if col_id column = columnId
               then column\<lparr> col_cards := filter (\<lambda>card. card_id card \<noteq> cardId) (col_cards column) \<rparr>
               else column) (columns (board S)) \<rparr> \<rparr>"

definition clearColumnCards :: "string \<Rightarrow> BoardStore \<Rightarrow> nat \<times> BoardStore" where
  "clearColumnCards columnId S =
     (let count = (case find (\<lambda>entry. col_id entry = columnId) (columns (board S)) of
                     None \<Rightarrow> 0 | Some column \<Rightarrow> length (col_cards column))
      in if count = 0 then (0, S)
         else (count,
               S\<lparr> board := (board S)
                    \<lparr> columns := map (\<lambda>entry.
                         if col_id entry = columnId then entry\<lparr> col_cards := [] \<rparr> else entry)
                       (columns (board S)) \<rparr> \<rparr>))"

definition archiveColumnCards :: "string \<Rightarrow> BoardStore \<Rightarrow> nat \<times> BoardStore" where
  "archiveColumnCards columnId S =
     (let cardsToArchive = (case find (\<lambda>entry. col_id entry = columnId) (columns (board S)) of
                              None \<Rightarrow> [] | Some column \<Rightarrow> col_cards column)
      in if length cardsToArchive = 0 then (0, S)
         else (length cardsToArchive,
               S\<lparr> board := (board S)
                    \<lparr> columns := map (\<lambda>entry.
                         if col_id entry = columnId then entry\<lparr> col_cards := [] \<rparr> else entry)
                       (columns (board S)),
                      archive := archive (board S) @ cardsToArchive \<rparr> \<rparr>))"

text \<open>
  \<open>moveCard\<close> copies the columns, removes the card from the copy of the source column and
  then reads the target column from the same copies: when both ids name one column, the
  target list is the list after the removal.
\<close>

definition moveCard :: "string \<Rightarrow> string \<Rightarrow> string \<Rightarrow> int \<Rightarrow> BoardStore \<Rightarrow> BoardStore" where
  "moveCard sourceColumnId cardId targetColumnId targetIndex S =
     (case findIndex (\<lambda>column. col_id column = sourceColumnId) (columns (board S)) of
        None \<Rightarrow> S
      | Some sourceColumnIndex \<Rightarrow>
     (case findIndex (\<lambda>column. col_id column = targetColumnId) (columns (board S)) of
        None \<Rightarrow> S
      | Some targetColumnIndex \<Rightarrow>
     (let sourceColumn = columns (board S) ! sourceColumnIndex
      in case findIndex (\<lambda>card. card_id card = cardId) (col_cards sourceColumn) of
        None \<Rightarrow> S
      | Some cardIndex \<Rightarrow>
     (let card = col_cards sourceColumn ! cardIndex;
          nextColumns = columns (board S);
          removed = nextColumns[sourceColumnIndex :=
                      (nextColumns ! sourceColumnIndex)
                        \<lparr> col_cards := spliceRemove cardIndex
                                          (col_cards (nextColumns ! sourceColumnIndex)) \<rparr>];
          targetCards = col_cards (removed ! targetColumnIndex);
          clamped = max 0 (min targetIndex (int (length targetCards)));
          insertIndex = (if sourceColumnId = targetColumnId \<and> int cardIndex < clamped
                         then clamped - 1 else clamped);
          inserted = removed[targetColumnIndex :=
                       (removed ! targetColumnIndex)
                         \<lparr> col_cards := spliceInsert insertIndex card targetCards \<rparr>]
      in S\<lparr> board := (board S)\<lparr> columns := inserted \<rparr> \<rparr>))))"

definition cardVisible :: "string \<Rightarrow> string \<Rightarrow> Card \<Rightarrow> bool" where
  "cardVisible q t crd =
     (if q \<noteq> [] \<and> \<not> includesStr (card_searchText crd) q then False
      else if t \<noteq> [] \<and> t \<notin> set (card_tags crd) then False
      else True)"

definition getSnapshot :: "runtime \<Rightarrow> BoardStore \<Rightarrow> BoardStoreSnapshot" where
  "getSnapshot E S =
     (let q = toLowerCase (trim (query (boardFilter S)));
          t = normalizeTagFilter (tag (boardFilter S));
          tags = sortUnique E
                   (concat (map (\<lambda>column. concat (map card_tags (col_cards column)))
                                (columns (board S))))
      in if q = [] \<and> t = [] then
           (let full = getBoard E S
            in \<lparr> snapshotBoard = full, snapshotFilter = boardFilter S,
                 visibleColumns = columns full, allTags = tags \<rparr>)
         else
           \<lparr> snapshotBoard = getBoard E S, snapshotFilter = boardFilter S,
             visibleColumns = map (\<lambda>column.
                 column\<lparr> col_cards := filter (cardVisible q t) (col_cards column) \<rparr>)
               (columns (board S)),
             allTags = tags \<rparr>)"




section \<open>Regular expressions\<close>

text \<open>
  The source matches lines with backtracking regular expressions. A pattern is written
  here the way the engine runs it: every construct takes its continuation, the matcher of
  the rest of the pattern, and tries its alternatives in the engine's order, so that the
  first success is the engine's match and the captured groups are the engine's groups.
  A greedy repetition tries the longest run first, a lazy one the shortest.
\<close>

type_synonym 'a matcher = "string \<Rightarrow> 'a option"

definition rxLit :: "string \<Rightarrow> 'a matcher \<Rightarrow> 'a matcher" where
  "rxLit l k s = (if startsWith s l then k (drop (length l) s) else None)"

definition rxOne :: "(char \<Rightarrow> bool) \<Rightarrow> (char \<Rightarrow> 'a matcher) \<Rightarrow> 'a matcher" where
  "rxOne p k s = (case s of [] \<Rightarrow> None | c # cs \<Rightarrow> if p c then k c cs else None)"

text \<open>\<open>rxStar p k acc\<close> is the greedy \<open>p*\<close>; \<open>acc\<close> is the text matched so far, handed to
  the continuation as the group.\<close>

fun rxStar :: "(char \<Rightarrow> bool) \<Rightarrow> (string \<Rightarrow> 'a matcher) \<Rightarrow> string \<Rightarrow> 'a matcher" where
  "rxStar p k acc [] = k acc []"
| "rxStar p k acc (c # cs) =
     (if p c then (case rxStar p k (acc @ [c]) cs of Some r \<Rightarrow> Some r | None \<Rightarrow> k acc (c # cs))
      else k acc (c # cs))"

definition rxPlus :: "(char \<Rightarrow> bool) \<Rightarrow> (string \<Rightarrow> 'a matcher) \<Rightarrow> 'a matcher" where
  "rxPlus p k s = (case s of [] \<Rightarrow> None | c # cs \<Rightarrow> if p c then rxStar p k [c] cs else None)"

fun rxLazyStar :: "(char \<Rightarrow> bool) \<Rightarrow> (string \<Rightarrow> 'a matcher) \<Rightarrow> string \<Rightarrow> 'a matcher" where
  "rxLazyStar p k acc [] = k acc []"
| "rxLazyStar p k acc (c # cs) =
     (case k acc (c # cs) of
        Some r \<Rightarrow> Some r
      | None \<Rightarrow> if p c then rxLazyStar p k (acc @ [c]) cs else None)"

definition rxLazyPlus :: "(char \<Rightarrow> bool) \<Rightarrow> (string \<Rightarrow> 'a matcher) \<Rightarrow> 'a matcher" where
  "rxLazyPlus p k s =
     (case s of [] \<Rightarrow> None | c # cs \<Rightarrow> if p c then rxLazyStar p k [c] cs else None)"

text \<open>\<open>p{n}\<close>\<close>

fun rxCount :: "nat \<Rightarrow> (char \<Rightarrow> bool) \<Rightarrow> (string \<Rightarrow> 'a matcher) \<Rightarrow> string \<Rightarrow> 'a matcher" where
  "rxCount 0 p k acc s = k acc s"
| "rxCount (Suc n) p k acc [] = None"
| "rxCount (Suc n) p k acc (c # cs) = (if p c then rxCount n p k (acc @ [c]) cs else None)"

text \<open>The greedy optional character \<open>c?\<close>, the end of the subject \<open>$\<close>, and the end of a
  pattern that is not anchored at the end, which returns the rest of the subject.\<close>

definition rxOptChar :: "char \<Rightarrow> 'a matcher \<Rightarrow> 'a matcher" where
  "rxOptChar ch k s =
     (case s of
        [] \<Rightarrow> k []
      | c # cs \<Rightarrow> if c = ch then (case k cs of Some r \<Rightarrow> Some r | None \<Rightarrow> k (c # cs))
                  else k (c # cs))"

definition rxEnd :: "'a \<Rightarrow> 'a matcher" where
  "rxEnd v s = (if s = [] then Some v else None)"

definition rxRest :: "'a \<Rightarrow> ('a \<times> string) matcher" where
  "rxRest v s = Some (v, s)"

text \<open>A pattern without \<open>^\<close> is tried at every offset, the leftmost first; the result
  comes with the offset of the match.\<close>

fun rxSearch :: "'a matcher \<Rightarrow> nat \<Rightarrow> string \<Rightarrow> (nat \<times> 'a) option" where
  "rxSearch m i [] = (case m [] of Some r \<Rightarrow> Some (i, r) | None \<Rightarrow> None)"
| "rxSearch m i (c # cs) =
     (case m (c # cs) of Some r \<Rightarrow> Some (i, r) | None \<Rightarrow> rxSearch m (Suc i) cs)"

definition anyChar :: "char \<Rightarrow> bool" where
  "anyChar c = True"

definition notBracket :: "char \<Rightarrow> bool" where
  "notBracket c = (c \<noteq> CHR '']'')"

definition dotChar :: "char \<Rightarrow> bool" where
  "dotChar c = (\<not> isLineTerminator c)"

section \<open>The parser (model/parse.ts)\<close>

text \<open>\<open>headingRegex = /^##\s+\[([^\]]+)]\s+(.+?)\s*$/\<close>, with its two groups.\<close>

definition headingRegex :: "string \<Rightarrow> (string \<times> string) option" where
  "headingRegex =
     rxLit ''##'' (rxPlus isSpace (\<lambda>_.
     rxLit ''['' (rxPlus notBracket (\<lambda>g1.
     rxLit '']'' (rxPlus isSpace (\<lambda>_.
     rxLazyPlus dotChar (\<lambda>g2.
     rxStar isSpace (\<lambda>_. rxEnd (g1, g2)) [])))))))"

text \<open>\<open>cardRegex = /^-\s+\[([ xX])]\s+\[([^\]]+)]\s*(.*)$/\<close>, with its three groups.\<close>

definition cardRegex :: "string \<Rightarrow> (char \<times> string \<times> string) option" where
  "cardRegex =
     rxLit ''-'' (rxPlus isSpace (\<lambda>_.
     rxLit ''['' (rxOne (\<lambda>c. c = CHR '' '' \<or> c = CHR ''x'' \<or> c = CHR ''X'') (\<lambda>g1.
     rxLit '']'' (rxPlus isSpace (\<lambda>_.
     rxLit ''['' (rxPlus notBracket (\<lambda>g2.
     rxLit '']'' (rxStar isSpace (\<lambda>_.
     rxStar dotChar (\<lambda>g3. rxEnd (g1, g2, g3)) []) [])))))))))"

text \<open>\<open>dueLineRegex = /^due::\s*(\d{4}-\d{2}-\d{2})\s*$/\<close>, with its group.\<close>

definition dueLineRegex :: "string \<Rightarrow> string option" where
  "dueLineRegex =
     rxLit ''due::'' (rxStar isSpace (\<lambda>_.
     rxCount 4 isDigit (\<lambda>y. rxLit ''-'' (
     rxCount 2 isDigit (\<lambda>m. rxLit ''-'' (
     rxCount 2 isDigit (\<lambda>d.
     rxStar isSpace (\<lambda>_. rxEnd (y @ ''-'' @ m @ ''-'' @ d)) []) [])) [])) []) [])"

text \<open>\<open>blockAnchorRegex = /^\^[A-Za-z0-9/_-]+\s*$/\<close>\<close>

definition blockAnchorRegex :: "string \<Rightarrow> unit option" where
  "blockAnchorRegex =
     rxLit ''^'' (rxPlus tagChar (\<lambda>_. rxStar isSpace (\<lambda>_. rxEnd ()) []))"

text \<open>
  \<open>archiveBlockRegex =
  /%%\s*kanban-next:archive:start\s*%%\n?([\s\S]*?)\n?%%\s*kanban-next:archive:end\s*%%/m\<close>:
  the offset of the match, its group, and the text behind the match.
\<close>

definition archiveBlockRegex :: "string \<Rightarrow> (nat \<times> string \<times> string) option" where
  "archiveBlockRegex =
     rxSearch (
       rxLit ''%%'' (rxStar isSpace (\<lambda>_.
       rxLit ''kanban-next:archive:start'' (rxStar isSpace (\<lambda>_.
       rxLit ''%%'' (rxOptChar CHR ''\<newline>'' (
       rxLazyStar anyChar (\<lambda>g.
         rxOptChar CHR ''\<newline>'' (
         rxLit ''%%'' (rxStar isSpace (\<lambda>_.
         rxLit ''kanban-next:archive:end'' (rxStar isSpace (\<lambda>_.
         rxLit ''%%'' (rxRest g)) [])) []))) []))) [])) [])) 0"

text \<open>The pattern \<open>/^---\n([\s\S]*?)\n---\n?/\<close> of \<open>splitFrontmatter\<close>: its group and the
  text behind the match.\<close>

definition frontmatterRegex :: "string \<Rightarrow> (string \<times> string) option" where
  "frontmatterRegex =
     rxLit ''---\<newline>'' (rxLazyStar anyChar (\<lambda>g.
       rxLit ''\<newline>---'' (rxOptChar CHR ''\<newline>'' (rxRest g))) [])"

datatype BoardParseError = BoardParseError string

record ColumnDefinition =
  def_id :: string
  def_title :: string
  def_wipLimit :: "number option"

record ParsedColumn =
  pc_id :: string
  pc_title :: string
  pc_cards :: "Card list"

text \<open>A property of a decoded value; \<open>None\<close> is \<open>undefined\<close>. Arrays are objects without
  the properties the parser asks for.\<close>

definition getField :: "yaml \<Rightarrow> string \<Rightarrow> yaml option" where
  "getField v key = (case v of YMap kvs \<Rightarrow> map_of kvs key | _ \<Rightarrow> None)"

definition isObject :: "yaml \<Rightarrow> bool" where
  "isObject v = (case v of YSeq _ \<Rightarrow> True | YMap _ \<Rightarrow> True | _ \<Rightarrow> False)"

definition splitFrontmatter :: "runtime \<Rightarrow> string \<Rightarrow> BoardParseError + (yaml \<times> string)" where
  "splitFrontmatter E content =
     (let normalized = normalizeNewlines content
      in case frontmatterRegex normalized of
           None \<Rightarrow> Inl (BoardParseError ''Kanban board is missing YAML frontmatter.'')
         | Some (g, body) \<Rightarrow>
             (case parseYaml E g of
                YamlThrows \<Rightarrow>
                  Inl (BoardParseError ''Kanban frontmatter could not be parsed as YAML.'')
              | YamlValue parsed \<Rightarrow>
                  if \<not> isObject parsed
                  then Inl (BoardParseError ''Kanban frontmatter must be a YAML object.'')
                  else Inr (parsed, body)))"

definition parseDensity :: "yaml option \<Rightarrow> CardDensity" where
  "parseDensity v = (if v = Some (YStr ''compact'') then Compact else Normal)"

definition parseWipLimit :: "yaml option \<Rightarrow> number option" where
  "parseWipLimit v =
     (case v of
        Some (YNum n) \<Rightarrow>
          if n = NaN then None
          else (let next = mathFloor n in if geZero next then Some next else None)
      | _ \<Rightarrow> None)"

definition stringField :: "yaml \<Rightarrow> string \<Rightarrow> string" where
  "stringField entry key = (case getField entry key of Some (YStr s) \<Rightarrow> trim s | _ \<Rightarrow> [])"

fun columnDefinitionLoop :: "yaml list \<Rightarrow> ColumnDefinition list \<Rightarrow> ColumnDefinition list" where
  "columnDefinitionLoop [] cols = cols"
| "columnDefinitionLoop (entry # entries) cols =
     (if \<not> isObject entry then columnDefinitionLoop entries cols
      else if stringField entry ''id'' = [] \<or> stringField entry ''title'' = []
      then columnDefinitionLoop entries cols
      else columnDefinitionLoop entries
             (cols @ [\<lparr> def_id = stringField entry ''id'',
                        def_title = stringField entry ''title'',
                        def_wipLimit = parseWipLimit (getField entry ''wipLimit'') \<rparr>]))"

definition parseColumnDefinitions :: "yaml option \<Rightarrow> ColumnDefinition list" where
  "parseColumnDefinitions v =
     (case v of Some (YSeq entries) \<Rightarrow> columnDefinitionLoop entries [] | _ \<Rightarrow> [])"

text \<open>The loop of \<open>normalizeDescription\<close> over the lines, with the due date found so far
  and the lines kept so far.\<close>

fun descriptionLoop ::
  "string list \<Rightarrow> string option \<Rightarrow> string list \<Rightarrow> string list \<times> string option" where
  "descriptionLoop [] dueDate bodyLines = (bodyLines, dueDate)"
| "descriptionLoop (line # ls) dueDate bodyLines =
     (if blockAnchorRegex (trim line) \<noteq> None then descriptionLoop ls dueDate bodyLines
      else (case dueLineRegex (trim line) of
              Some g \<Rightarrow>
                if dueDate = None then descriptionLoop ls (normalizeDueDate (Some g)) bodyLines
                else descriptionLoop ls dueDate (bodyLines @ [line])
            | None \<Rightarrow> descriptionLoop ls dueDate (bodyLines @ [line])))"

definition normalizeDescription :: "string list \<Rightarrow> string \<times> string option" where
  "normalizeDescription rawLines =
     (let ls = rev (dropWhile (\<lambda>l. trim l = []) (rev rawLines));
          r = descriptionLoop ls None []
      in (trimEnd (join ''\<newline>'' (fst r)), snd r))"

text \<open>\<open>nextLine.replace(/^( {2}|\t)/, '')\<close>\<close>

definition stripIndent :: "string \<Rightarrow> string" where
  "stripIndent l =
     (if startsWith l ''  '' then drop 2 l
      else if startsWith l [CHR 0x09] then drop 1 l
      else l)"

text \<open>The inner loop of \<open>parseCardsFromLines\<close>: the description lines behind a card line,
  and the lines the outer loop goes on with.\<close>

fun takeContinuation :: "string list \<Rightarrow> string list \<times> string list" where
  "takeContinuation [] = ([], [])"
| "takeContinuation (nextLine # ls) =
     (if cardRegex nextLine \<noteq> None \<or> headingRegex nextLine \<noteq> None then ([], nextLine # ls)
      else if trim nextLine = [] \<or> startsWith nextLine ''  '' \<or> startsWith nextLine [CHR 0x09]
      then (stripIndent nextLine # fst (takeContinuation ls), snd (takeContinuation ls))
      else ([], nextLine # ls))"

lemma takeContinuation_length: "length (snd (takeContinuation ls)) \<le> length ls"
  by (induction ls) auto

definition cardFromMatch ::
  "runtime \<Rightarrow> char \<times> string \<times> string \<Rightarrow> string list \<Rightarrow> nat \<Rightarrow> Card \<times> nat" where
  "cardFromMatch E cardMatch descriptionLines n =
     (let checked = (toLowerCase [fst cardMatch] = ''x'');
          idn = (if trim (fst (snd cardMatch)) \<noteq> [] then (trim (fst (snd cardMatch)), n)
                 else createId E ''card'' n);
          title = trim (snd (snd cardMatch));
          d = normalizeDescription descriptionLines
      in (normalizeCard E
            \<lparr> card_id = fst idn, card_title = title, card_description = fst d,
              card_checked = checked, card_dueDate = snd d,
              card_tags = [], card_searchText = [] \<rparr>,
          snd idn))"

function parseCardsFromLines :: "runtime \<Rightarrow> string list \<Rightarrow> nat \<Rightarrow> Card list \<times> nat" where
  "parseCardsFromLines E [] n = ([], n)"
| "parseCardsFromLines E (line # rest) n =
     (case cardRegex line of
        None \<Rightarrow> parseCardsFromLines E rest n
      | Some cardMatch \<Rightarrow>
          (let c = cardFromMatch E cardMatch (fst (takeContinuation rest)) n;
               r = parseCardsFromLines E (snd (takeContinuation rest)) (snd c)
           in (fst c # fst r, snd r)))"
  by pat_completeness auto
termination
proof (relation "measure (\<lambda>(E, ls, n). length ls)")
  show "wf (measure (\<lambda>(E :: runtime, ls :: string list, n :: nat). length ls))" by simp
next
  fix E :: runtime and line :: string and rest :: "string list" and n :: nat
  show "((E, rest, n), (E, line # rest, n)) \<in> measure (\<lambda>(E, ls, n). length ls)" by simp
next
  fix E :: runtime and line :: string and rest :: "string list" and n :: nat
    and cardMatch :: "char \<times> string \<times> string" and c :: "Card \<times> nat"
  have "length (snd (takeContinuation rest)) \<le> length rest" by (rule takeContinuation_length)
  then show "((E, snd (takeContinuation rest), snd c), (E, line # rest, n))
      \<in> measure (\<lambda>(E, ls, n). length ls)"
    by simp
qed

definition notHeading :: "string \<Rightarrow> bool" where
  "notHeading l = (headingRegex l = None)"

definition columnFromMatch ::
  "runtime \<Rightarrow> string \<times> string \<Rightarrow> string list \<Rightarrow> nat \<Rightarrow> ParsedColumn \<times> nat" where
  "columnFromMatch E headingMatch sectionLines n =
     (let idn = (if trim (fst headingMatch) \<noteq> [] then (trim (fst headingMatch), n)
                 else createId E ''column'' n);
          title = (if trim (snd headingMatch) \<noteq> [] then trim (snd headingMatch)
                   else ''Untitled'');
          cs = parseCardsFromLines E sectionLines (snd idn)
      in (\<lparr> pc_id = fst idn, pc_title = title, pc_cards = fst cs \<rparr>, snd cs))"

function parseColumnsLoop :: "runtime \<Rightarrow> string list \<Rightarrow> nat \<Rightarrow> ParsedColumn list \<times> nat" where
  "parseColumnsLoop E [] n = ([], n)"
| "parseColumnsLoop E (line # rest) n =
     (case headingRegex line of
        None \<Rightarrow> parseColumnsLoop E rest n
      | Some headingMatch \<Rightarrow>
          (let c = columnFromMatch E headingMatch (takeWhile notHeading rest) n;
               r = parseColumnsLoop E (dropWhile notHeading rest) (snd c)
           in (fst c # fst r, snd r)))"
  by pat_completeness auto
termination
proof (relation "measure (\<lambda>(E, ls, n). length ls)")
  show "wf (measure (\<lambda>(E :: runtime, ls :: string list, n :: nat). length ls))" by simp
next
  fix E :: runtime and line :: string and rest :: "string list" and n :: nat
  show "((E, rest, n), (E, line # rest, n)) \<in> measure (\<lambda>(E, ls, n). length ls)" by simp
next
  fix E :: runtime and line :: string and rest :: "string list" and n :: nat
    and headingMatch :: "string \<times> string" and c :: "ParsedColumn \<times> nat"
  have "length (dropWhile notHeading rest) \<le> length rest" by (rule length_dropWhile_le)
  then show "((E, dropWhile notHeading rest, snd c), (E, line # rest, n))
      \<in> measure (\<lambda>(E, ls, n). length ls)"
    by simp
qed

definition parseColumnsFromBody :: "runtime \<Rightarrow> string \<Rightarrow> nat \<Rightarrow> ParsedColumn list \<times> nat" where
  "parseColumnsFromBody E body n = parseColumnsLoop E (splitLines (normalizeNewlines body)) n"

definition extractArchiveSection :: "runtime \<Rightarrow> string \<Rightarrow> nat \<Rightarrow> (string \<times> Card list) \<times> nat" where
  "extractArchiveSection E body n =
     (let normalized = normalizeNewlines body
      in case archiveBlockRegex normalized of
           None \<Rightarrow> ((normalized, []), n)
         | Some (index, archiveMarkdown, behind) \<Rightarrow>
             (let a = parseCardsFromLines E (splitLines archiveMarkdown) n
              in ((take index normalized @ behind, fst a), snd a)))"

text \<open>\<open>mergeColumns\<close>: the map from ids to body sections (a later section replaces an
  earlier one with the same id), the loop over the header's definitions, which records
  the ids it has seen, and the loop over the body sections.\<close>

definition bodyByIdMap :: "ParsedColumn list \<Rightarrow> (string \<rightharpoonup> ParsedColumn)" where
  "bodyByIdMap fromBody = foldl (\<lambda>m column. m(pc_id column \<mapsto> column)) Map.empty fromBody"

definition mergeDefinition :: "(string \<rightharpoonup> ParsedColumn) \<Rightarrow> ColumnDefinition \<Rightarrow> Column" where
  "mergeDefinition bodyById definition =
     \<lparr> col_id = def_id definition,
       col_title = (if def_title definition \<noteq> [] then def_title definition
                    else (case bodyById (def_id definition) of
                            Some bodyColumn \<Rightarrow>
                              if pc_title bodyColumn \<noteq> [] then pc_title bodyColumn else ''Untitled''
                          | None \<Rightarrow> ''Untitled'')),
       col_wipLimit = def_wipLimit definition,
       col_cards = (case bodyById (def_id definition) of
                      Some bodyColumn \<Rightarrow> pc_cards bodyColumn
                    | None \<Rightarrow> []) \<rparr>"

definition mergeColumns :: "ColumnDefinition list \<Rightarrow> ParsedColumn list \<Rightarrow> Column list" where
  "mergeColumns fromFrontmatter fromBody =
     (let bodyById = bodyByIdMap fromBody;
          afterHeader = foldl (\<lambda>(seen, cols) definition.
                            (insert (def_id definition) seen,
                             cols @ [mergeDefinition bodyById definition]))
                          ({}, []) fromFrontmatter
      in foldl (\<lambda>cols bodyColumn.
                  if pc_id bodyColumn \<in> fst afterHeader then cols
                  else cols @ [\<lparr> col_id = pc_id bodyColumn, col_title = pc_title bodyColumn,
                                 col_wipLimit = None, col_cards = pc_cards bodyColumn \<rparr>])
               (snd afterHeader) fromBody)"

text \<open>\<open>createDefaultBoard\<close> (model/boardTemplate.ts)\<close>

definition createDefaultBoard :: "string \<Rightarrow> BoardDocument" where
  "createDefaultBoard title =
     \<lparr> boardTitle = title, boardDescription = [], density = Normal, columns = [], archive = [] \<rparr>"

text \<open>\<open>parseBoardMarkdown\<close>; \<open>n\<close> counts the identifiers created before the call, and the
  result carries the count after it.\<close>

definition parseBoardMarkdown ::
  "runtime \<Rightarrow> string \<Rightarrow> nat \<Rightarrow> BoardParseError + (BoardDocument \<times> nat)" where
  "parseBoardMarkdown E content n =
     (case splitFrontmatter E content of
        Inl e \<Rightarrow> Inl e
      | Inr (frontmatter, body) \<Rightarrow>
          if getField frontmatter ''kanban'' \<noteq> Some (YBool True)
          then Inl (BoardParseError ''File frontmatter is missing `kanban: true`.'')
          else
            (let title = (case getField frontmatter ''boardTitle'' of
                            Some (YStr s) \<Rightarrow> if length (trim s) > 0 then trim s
                                             else ''Untitled Kanban''
                          | _ \<Rightarrow> ''Untitled Kanban'');
                 description = (case getField frontmatter ''boardDescription'' of
                                  Some (YStr s) \<Rightarrow> trim s | _ \<Rightarrow> []);
                 dens = parseDensity (getField frontmatter ''density'');
                 frontmatterColumns = parseColumnDefinitions (getField frontmatter ''columns'');
                 a = extractArchiveSection E body n;
                 b = parseColumnsFromBody E (fst (fst a)) (snd a);
                 cols = mergeColumns frontmatterColumns (fst b)
             in if length cols = 0
                then Inr ((createDefaultBoard title)
                            \<lparr> boardDescription := description, density := dens,
                              archive := snd (fst a) \<rparr>, snd b)
                else Inr (\<lparr> boardTitle = title, boardDescription = description,
                            density = dens, columns = cols, archive = snd (fst a) \<rparr>, snd b)))"

section \<open>The serializer (model/serialize.ts)\<close>

definition normalizeColumns :: "BoardDocument \<Rightarrow> ColumnDefinition list" where
  "normalizeColumns b =
     map (\<lambda>column.
        \<lparr> def_id = col_id column, def_title = col_title column,
          def_wipLimit = (case col_wipLimit column of
                            Some n \<Rightarrow> if geZero n then Some n else None
                          | None \<Rightarrow> None) \<rparr>) (columns b)"

definition densityName :: "CardDensity \<Rightarrow> string" where
  "densityName d = (case d of Normal \<Rightarrow> ''normal'' | Compact \<Rightarrow> ''compact'')"

definition buildFrontmatter :: "BoardDocument \<Rightarrow> yaml" where
  "buildFrontmatter b =
     YMap ([(''kanban'', YBool True),
            (''kanbanVersion'', YNum (Finite 1)),
            (''boardTitle'', YStr (boardTitle b))]
           @ (if boardDescription b \<noteq> [] then [(''boardDescription'', YStr (boardDescription b))]
              else [])
           @ [(''density'', YStr (densityName (density b))),
              (''columns'', YSeq (map (\<lambda>d.
                  YMap [(''id'', YStr (def_id d)),
                        (''title'', YStr (def_title d)),
                        (''wipLimit'', (case def_wipLimit d of Some n \<Rightarrow> YNum n | None \<Rightarrow> YNull))])
                (normalizeColumns b)))])"

definition serializeCard :: "runtime \<Rightarrow> Card \<Rightarrow> string list" where
  "serializeCard E crd =
     (let normalized = normalizeCard E
            \<lparr> card_id = card_id crd, card_title = trim (card_title crd),
              card_description = card_description crd, card_checked = card_checked crd,
              card_dueDate = normalizeDueDate (card_dueDate crd),
              card_tags = [], card_searchText = [] \<rparr>;
          firstLines =
            [''- ['' @ (if card_checked normalized then ''x'' else '' '') @ ''] [''
               @ card_id normalized @ ''] '' @ card_title normalized,
             ''  ^'' @ card_id normalized];
          descriptionChunks =
            (if length (trim (card_description normalized)) > 0
             then [trimEnd (card_description normalized)] else [])
            @ (case card_dueDate normalized of
                 Some d \<Rightarrow> if d \<noteq> [] then [''due:: '' @ d] else []
               | None \<Rightarrow> [])
      in firstLines
         @ (if length descriptionChunks > 0
            then map (\<lambda>line. ''  '' @ line) (splitLines (join ''\<newline>'' descriptionChunks))
            else [])
         @ [[]])"

definition serializeArchive :: "runtime \<Rightarrow> Card list \<Rightarrow> string list" where
  "serializeArchive E cards =
     (if length cards = 0 then []
      else [[], ''%% kanban-next:archive:start %%'', []]
           @ concat (map (serializeCard E) cards)
           @ [''%% kanban-next:archive:end %%'', []])"

definition serializeBoardMarkdown :: "runtime \<Rightarrow> BoardDocument \<Rightarrow> string" where
  "serializeBoardMarkdown E b =
     (let y = trimEnd (stringifyYaml E (buildFrontmatter b));
          ls = [''---'', y, ''---'', []]
               @ concat (map (\<lambda>column.
                   [''## ['' @ col_id column @ ''] '' @ col_title column, []]
                   @ concat (map (serializeCard E) (col_cards column))
                   @ [[]]) (columns b))
               @ serializeArchive E (archive b)
      in join ''\<newline>'' (rev (dropWhile (\<lambda>l. l = []) (rev ls))) @ ''\<newline>'')"

definition toMarkdown :: "runtime \<Rightarrow> BoardStore \<Rightarrow> string" where
  "toMarkdown E S = serializeBoardMarkdown E (board S)"

section \<open>The specification's wording, and sample values\<close>

text \<open>The date pattern \<open>YYYY-MM-DD\<close> as the specification words it: ten characters,
  digits everywhere but at the two hyphens.\<close>

definition matchesDatePattern :: "string \<Rightarrow> bool" where
  "matchesDatePattern s =
     (length s = 10 \<and> s ! 4 = CHR ''-'' \<and> s ! 7 = CHR ''-'' \<and>
      (\<forall>i \<in> {0, 1, 2, 3, 5, 6, 8, 9}. isDigit (s ! i)))"

text \<open>A card without description, due date and tags, and a store with one column
  \<open>lane\<close> holding such cards, as the repository's store tests build them.\<close>

definition plainCard :: "string \<Rightarrow> Card" where
  "plainCard name =
     \<lparr> card_id = name, card_title = name, card_description = [], card_checked = False,
       card_dueDate = None, card_tags = [],
       card_searchText = toLowerCase name @ ''\<newline>\<newline>\<newline>'' \<rparr>"

definition laneStore :: "string list \<Rightarrow> BoardStore" where
  "laneStore names =
     \<lparr> board = \<lparr> boardTitle = ''Board'', boardDescription = [], density = Normal,
                 columns = [\<lparr> col_id = ''lane'', col_title = ''Lane'', col_wipLimit = None,
                              col_cards = map plainCard names \<rparr>],
                 archive = [] \<rparr>,
       boardFilter = \<lparr> query = [], tag = [] \<rparr> \<rparr>"

text \<open>A header definition and a body section, for the examples of the column merge.\<close>

definition headerColumn :: "string \<Rightarrow> string \<Rightarrow> ColumnDefinition" where
  "headerColumn i t = \<lparr> def_id = i, def_title = t, def_wipLimit = None \<rparr>"

definition bodySection :: "string \<Rightarrow> string \<Rightarrow> string list \<Rightarrow> ParsedColumn" where
  "bodySection i t names = \<lparr> pc_id = i, pc_title = t, pc_cards = map plainCard names \<rparr>"







definition allCards :: "BoardDocument \<Rightarrow> Card list" where
  "allCards b = concat (map col_cards (columns b)) @ archive b"

text \<open>
  An environment for the examples: the results of the \<open>yaml\<close> package on the header
  texts the examples use (no example uses another text), the order of code units in
  the place of \<open>localeCompare\<close> (no example sorts more than one tag, so the order
  plays no part in them), and a fixed sequence of identifier suffixes.
\<close>

fun codeUnitCompare :: "string \<Rightarrow> string \<Rightarrow> int" where
  "codeUnitCompare [] [] = 0"
| "codeUnitCompare [] (b # bs) = - 1"
| "codeUnitCompare (a # as) [] = 1"
| "codeUnitCompare (a # as) (b # bs) =
     (if (of_char a :: nat) < of_char b then - 1
      else if (of_char b :: nat) < of_char a then 1
      else codeUnitCompare as bs)"

definition twoDueBoard :: BoardDocument where
  "twoDueBoard =
     \<lparr> boardTitle = ''Untitled Kanban'', boardDescription = [], density = Normal,
       columns = [\<lparr> col_id = ''a'', col_title = ''A'', col_wipLimit = None, col_cards = [] \<rparr>],
       archive = [] \<rparr>"

definition twoDueHeader :: string where
  "twoDueHeader = ''kanban: true\<newline>kanbanVersion: 1\<newline>boardTitle: Untitled Kanban\<newline>density: normal\<newline>columns:\<newline>  - id: a\<newline>    title: A\<newline>    wipLimit: null\<newline>''"

definition exampleParseYaml :: "string \<Rightarrow> yamlResult" where
  "exampleParseYaml s =
     (if s = ''kanban: true'' then YamlValue (YMap [(''kanban'', YBool True)])
      else if s = trimEnd twoDueHeader then YamlValue (buildFrontmatter twoDueBoard)
      else if s = ''boardTitle: Not a board''
        then YamlValue (YMap [(''boardTitle'', YStr ''Not a board'')])
      else if s = ''Just a note'' then YamlValue (YStr ''Just a note'')
      else if s = ''kanban: [true'' then YamlThrows
      else YamlThrows)"

definition exampleStringifyYaml :: "yaml \<Rightarrow> string" where
  "exampleStringifyYaml v = (if v = buildFrontmatter twoDueBoard then twoDueHeader else [])"

definition exampleRuntime :: runtime where
  "exampleRuntime =
     \<lparr> parseYaml = exampleParseYaml, stringifyYaml = exampleStringifyYaml,
       localeCompare = codeUnitCompare,
       idSuffix = (\<lambda>n. ''stamp-'' @ replicate (Suc n) CHR ''r'') \<rparr>"

text \<open>Parsing a text and serializing the result, as one step.\<close>

definition reserialize :: "runtime \<Rightarrow> string \<Rightarrow> BoardParseError + string" where
  "reserialize E x =
     (case parseBoardMarkdown E x 0 of
        Inl e \<Rightarrow> Inl e
      | Inr r \<Rightarrow> Inr (serializeBoardMarkdown E (fst r)))"

text \<open>A board text whose only card carries two due lines, and its first and second
  serialization.\<close>

definition twoDueText :: string where
  "twoDueText = ''---\<newline>kanban: true\<newline>---\<newline>## [a] A\<newline>- [ ] [c] T\<newline>  due:: 2026-01-01\<newline>  due:: 2026-01-02\<newline>''"

definition twoDuePass1 :: string where
  "twoDuePass1 = ''---\<newline>'' @ twoDueHeader @ ''---\<newline>\<newline>## [a] A\<newline>\<newline>- [ ] [c] T\<newline>  ^c\<newline>  due:: 2026-01-02\<newline>  due:: 2026-01-01\<newline>''"

definition twoDuePass2 :: string where
  "twoDuePass2 = ''---\<newline>'' @ twoDueHeader @ ''---\<newline>\<newline>## [a] A\<newline>\<newline>- [ ] [c] T\<newline>  ^c\<newline>  due:: 2026-01-01\<newline>  due:: 2026-01-02\<newline>''"

text \<open>A board text with a card line whose title part is blank.\<close>

definition blankTitleText :: string where
  "blankTitleText = ''---\<newline>kanban: true\<newline>---\<newline>## [a] A\<newline>- [ ] [id] \<newline>''"





section \<open>Due dates\<close>

lemma dueRegex_pattern: "dueRegex s = matchesDatePattern s"
proof (cases "length s = 10")
  case True
  then obtain y1 y2 y3 y4 s1 m1 m2 s2 d1 d2 where "s = [y1, y2, y3, y4, s1, m1, m2, s2, d1, d2]"
    by (auto simp: length_Suc_conv eval_nat_numeral)
  then show ?thesis by (auto simp: dueRegex_def matchesDatePattern_def)
next
  case False
  then show ?thesis
    by (auto simp: dueRegex_def matchesDatePattern_def split: list.splits)
qed

text \<open>
  Claim C6. The due date is checked against the pattern only: \<open>normalizeCard\<close> keeps
  \<open>2026-02-30\<close>, which is no calendar date, and turns \<open>02-20-2026\<close> into an absent due
  date. In general a value whose trimmed text does not match \<open>YYYY-MM-DD\<close> becomes
  absent, a value whose trimmed text matches is kept in its trimmed form, and an absent
  value stays absent; no case raises an error.
\<close>

theorem due_date_pattern_only:
  "card_dueDate (normalizeCard E (c\<lparr> card_dueDate := Some ''2026-02-30'' \<rparr>)) = Some ''2026-02-30''
   \<and> card_dueDate (normalizeCard E (c\<lparr> card_dueDate := Some ''02-20-2026'' \<rparr>)) = None
   \<and> (\<not> matchesDatePattern (trim v) \<longrightarrow>
        card_dueDate (normalizeCard E (c\<lparr> card_dueDate := Some v \<rparr>)) = None)
   \<and> (matchesDatePattern (trim v) \<longrightarrow>
        card_dueDate (normalizeCard E (c\<lparr> card_dueDate := Some v \<rparr>)) = Some (trim v))
   \<and> card_dueDate (normalizeCard E (c\<lparr> card_dueDate := None \<rparr>)) = None"
proof -
  have a: "card_dueDate (normalizeCard E (c\<lparr> card_dueDate := d \<rparr>)) = normalizeDueDate d" for d
    by (simp add: normalizeCard_def Let_def)
  have t1: "trim ''2026-02-30'' = ''2026-02-30''"
    by (simp add: trim_def trimEnd_def trimStart_def isSpace_def)
  have t2: "trim ''02-20-2026'' = ''02-20-2026''"
    by (simp add: trim_def trimEnd_def trimStart_def isSpace_def)
  have p1: "dueRegex ''2026-02-30''" by (simp add: dueRegex_def isDigit_def)
  have p2: "\<not> dueRegex ''02-20-2026''" by (simp add: dueRegex_def isDigit_def)
  have e: "\<not> matchesDatePattern (trim [])"
    by (simp add: matchesDatePattern_def trim_def trimEnd_def trimStart_def)
  show ?thesis
    using t1 t2 p1 p2 e
    by (auto simp: a normalizeDueDate_def dueRegex_pattern)
qed

theorem due_date_pattern_only_witness:
  "\<not> matchesDatePattern (trim ''next week'') \<and> matchesDatePattern (trim '' 2026-02-17 '')
   \<and> (\<forall>E. card_dueDate (normalizeCard E ((plainCard ''A'')\<lparr> card_dueDate := Some ''next week'' \<rparr>)) = None
        \<and> card_dueDate (normalizeCard E ((plainCard ''A'')\<lparr> card_dueDate := Some '' 2026-02-17 '' \<rparr>))
            = Some ''2026-02-17'')"
proof -
  have t1: "trim ''next week'' = ''next week''"
    by (simp add: trim_def trimEnd_def trimStart_def isSpace_def)
  have t2: "trim '' 2026-02-17 '' = ''2026-02-17''"
    by (simp add: trim_def trimEnd_def trimStart_def isSpace_def)
  have n1: "\<not> matchesDatePattern (trim ''next week'')"
    by (simp add: t1 matchesDatePattern_def)
  have n2: "matchesDatePattern (trim '' 2026-02-17 '')"
    by (simp add: t2 matchesDatePattern_def isDigit_def)
  show ?thesis
    using n1 n2
      due_date_pattern_only [of _ "plainCard ''A''" "''next week''"]
      due_date_pattern_only [of _ "plainCard ''A''" "'' 2026-02-17 ''"]
    by (simp add: t2)
qed

section \<open>Titles in the store\<close>

text \<open>
  Claim C10. A blank title never overwrites a title in the store. \<open>renameColumn\<close> with a
  title that is empty after trimming leaves the store as it is, and otherwise stores the
  trimmed title in the columns with the given id; \<open>setBoardMetadata\<close> with a board title
  that is empty after trimming keeps the previous board title, and in every case stores
  the trimmed description and the density.
\<close>

theorem blank_titles_never_overwrite:
  "(trim title = [] \<longrightarrow> renameColumn columnId title S = S)
   \<and> map (\<lambda>c. (col_id c, col_title c)) (columns (getBoard E (renameColumn columnId title S))) =
       map (\<lambda>c. (col_id c,
                  if col_id c = columnId \<and> trim title \<noteq> [] then trim title else col_title c))
           (columns (getBoard E S))
   \<and> boardTitle (getBoard E (setBoardMetadata t d y S)) =
       (if trim t = [] then boardTitle (getBoard E S) else trim t)
   \<and> boardDescription (getBoard E (setBoardMetadata t d y S)) = trim d
   \<and> density (getBoard E (setBoardMetadata t d y S)) = y"
proof -
  have 1: "trim title = [] \<longrightarrow> renameColumn columnId title S = S"
    by (simp add: renameColumn_def map_idI)
  have 2: "map (\<lambda>c. (col_id c, col_title c)) (columns (getBoard E (renameColumn columnId title S))) =
       map (\<lambda>c. (col_id c,
                  if col_id c = columnId \<and> trim title \<noteq> [] then trim title else col_title c))
           (columns (getBoard E S))"
    by (simp add: getBoard_def cloneBoard_def renameColumn_def comp_def)
  have 3: "boardTitle (getBoard E (setBoardMetadata t d y S)) =
       (if trim t = [] then boardTitle (getBoard E S) else trim t)"
    by (simp add: getBoard_def cloneBoard_def setBoardMetadata_def)
  have 4: "boardDescription (getBoard E (setBoardMetadata t d y S)) = trim d"
    by (simp add: getBoard_def cloneBoard_def setBoardMetadata_def)
  have 5: "density (getBoard E (setBoardMetadata t d y S)) = y"
    by (simp add: getBoard_def cloneBoard_def setBoardMetadata_def)
  from 1 2 3 4 5 show ?thesis by blast
qed

theorem blank_titles_never_overwrite_witness:
  "trim ''   '' = [] \<and> renameColumn ''lane'' ''   '' (laneStore [''A'']) = laneStore [''A'']
   \<and> (\<forall>E. boardTitle (getBoard E (setBoardMetadata ''   '' '' Sprint 3 '' Compact (laneStore [''A''])))
            = ''Board'')"
proof -
  have t: "trim ''   '' = []"
    by (simp add: trim_def trimEnd_def trimStart_def isSpace_def)
  have b: "boardTitle (getBoard E (laneStore [''A''])) = ''Board''" for E
    by (simp add: getBoard_def cloneBoard_def laneStore_def)
  show ?thesis
    using t blank_titles_never_overwrite [of "''   ''" "''lane''" "laneStore [''A'']" _ "''   ''" "'' Sprint 3 ''" Compact]
    by (simp add: b)
qed

section \<open>Filters and snapshots\<close>

text \<open>
  Claim C7. Setting the filter query or the filter tag leaves the document untouched:
  \<open>getBoard\<close>, the board of the snapshot and the tag list of the snapshot are the same
  before and after. With both filter fields empty (also after trimming and
  normalization) the visible columns are the columns of the document. Otherwise the
  visible columns are the columns of the store in the same order, and a card is visible
  in its column exactly when its search text contains the trimmed, lower-cased query
  (if that is not empty) and its tags contain the normalized filter tag (if that is not
  empty).
\<close>

theorem filter_leaves_document:
  "getBoard E (setFilterQuery q S) = getBoard E S
   \<and> getBoard E (setFilterTag t S) = getBoard E S
   \<and> snapshotBoard (getSnapshot E (setFilterQuery q S)) = snapshotBoard (getSnapshot E S)
   \<and> snapshotBoard (getSnapshot E (setFilterTag t S)) = snapshotBoard (getSnapshot E S)
   \<and> allTags (getSnapshot E (setFilterQuery q S)) = allTags (getSnapshot E S)
   \<and> allTags (getSnapshot E (setFilterTag t S)) = allTags (getSnapshot E S)
   \<and> (query (boardFilter S) = [] \<and> tag (boardFilter S) = [] \<longrightarrow>
        visibleColumns (getSnapshot E S) = columns (getBoard E S))
   \<and> (toLowerCase (trim (query (boardFilter S))) = [] \<and> normalizeTagFilter (tag (boardFilter S)) = [] \<longrightarrow>
        visibleColumns (getSnapshot E S) = columns (getBoard E S))
   \<and> (toLowerCase (trim (query (boardFilter S))) \<noteq> [] \<or> normalizeTagFilter (tag (boardFilter S)) \<noteq> [] \<longrightarrow>
        map col_id (visibleColumns (getSnapshot E S)) = map col_id (columns (board S))
        \<and> (\<forall>i < length (columns (board S)). \<forall>c.
             c \<in> set (col_cards (visibleColumns (getSnapshot E S) ! i)) \<longleftrightarrow>
               c \<in> set (col_cards (columns (board S) ! i))
               \<and> (toLowerCase (trim (query (boardFilter S))) \<noteq> [] \<longrightarrow>
                    includesStr (card_searchText c) (toLowerCase (trim (query (boardFilter S)))))
               \<and> (normalizeTagFilter (tag (boardFilter S)) \<noteq> [] \<longrightarrow>
                    normalizeTagFilter (tag (boardFilter S)) \<in> set (card_tags c))))"
proof -
  have snap_board: "snapshotBoard (getSnapshot E T) = getBoard E T" for T
    by (simp add: getSnapshot_def Let_def)
  have snap_tags: "allTags (getSnapshot E T) =
      sortUnique E (concat (map (\<lambda>column. concat (map card_tags (col_cards column))) (columns (board T))))" for T
    by (simp add: getSnapshot_def Let_def)
  have gq: "getBoard E (setFilterQuery q S) = getBoard E S"
    by (simp add: getBoard_def setFilterQuery_def)
  have gt: "getBoard E (setFilterTag t S) = getBoard E S"
    by (simp add: getBoard_def setFilterTag_def)
  have bq: "board (setFilterQuery q S) = board S" by (simp add: setFilterQuery_def)
  have bt: "board (setFilterTag t S) = board S" by (simp add: setFilterTag_def)
  have empty: "toLowerCase (trim (query (boardFilter S))) = [] \<and> normalizeTagFilter (tag (boardFilter S)) = [] \<longrightarrow>
        visibleColumns (getSnapshot E S) = columns (getBoard E S)"
    by (simp add: getSnapshot_def Let_def)
  have none: "toLowerCase (trim []) = [] \<and> normalizeTagFilter [] = []"
    by (simp add: trim_def trimEnd_def trimStart_def toLowerCase_def normalizeTagFilter_def)
  have empty0: "query (boardFilter S) = [] \<and> tag (boardFilter S) = [] \<longrightarrow>
        visibleColumns (getSnapshot E S) = columns (getBoard E S)"
    using empty none by auto
  have vis: "toLowerCase (trim (query (boardFilter S))) \<noteq> [] \<or> normalizeTagFilter (tag (boardFilter S)) \<noteq> [] \<Longrightarrow>
      visibleColumns (getSnapshot E S) =
        map (\<lambda>column. column\<lparr> col_cards := filter (cardVisible (toLowerCase (trim (query (boardFilter S))))
                (normalizeTagFilter (tag (boardFilter S)))) (col_cards column) \<rparr>) (columns (board S))"
    by (auto simp: getSnapshot_def Let_def)
  have nonempty: "toLowerCase (trim (query (boardFilter S))) \<noteq> [] \<or> normalizeTagFilter (tag (boardFilter S)) \<noteq> [] \<longrightarrow>
        map col_id (visibleColumns (getSnapshot E S)) = map col_id (columns (board S))
        \<and> (\<forall>i < length (columns (board S)). \<forall>c.
             c \<in> set (col_cards (visibleColumns (getSnapshot E S) ! i)) \<longleftrightarrow>
               c \<in> set (col_cards (columns (board S) ! i))
               \<and> (toLowerCase (trim (query (boardFilter S))) \<noteq> [] \<longrightarrow>
                    includesStr (card_searchText c) (toLowerCase (trim (query (boardFilter S)))))
               \<and> (normalizeTagFilter (tag (boardFilter S)) \<noteq> [] \<longrightarrow>
                    normalizeTagFilter (tag (boardFilter S)) \<in> set (card_tags c)))"
  proof
    assume a: "toLowerCase (trim (query (boardFilter S))) \<noteq> [] \<or> normalizeTagFilter (tag (boardFilter S)) \<noteq> []"
    show "map col_id (visibleColumns (getSnapshot E S)) = map col_id (columns (board S))
        \<and> (\<forall>i < length (columns (board S)). \<forall>c.
             c \<in> set (col_cards (visibleColumns (getSnapshot E S) ! i)) \<longleftrightarrow>
               c \<in> set (col_cards (columns (board S) ! i))
               \<and> (toLowerCase (trim (query (boardFilter S))) \<noteq> [] \<longrightarrow>
                    includesStr (card_searchText c) (toLowerCase (trim (query (boardFilter S)))))
               \<and> (normalizeTagFilter (tag (boardFilter S)) \<noteq> [] \<longrightarrow>
                    normalizeTagFilter (tag (boardFilter S)) \<in> set (card_tags c)))"
      unfolding vis [OF a] by (auto simp: comp_def cardVisible_def)
  qed
  show ?thesis
    using gq gt empty empty0 nonempty by (simp add: snap_board snap_tags bq bt)
qed

theorem filter_leaves_document_witness:
  "toLowerCase (trim (query (boardFilter (setFilterQuery '' B '' (laneStore [''A'', ''B'']))))) \<noteq> []
   \<and> query (boardFilter (laneStore [''A'', ''B''])) = [] \<and> tag (boardFilter (laneStore [''A'', ''B''])) = []
   \<and> (\<forall>E. visibleColumns (getSnapshot E (laneStore [''A'', ''B''])) = columns (getBoard E (laneStore [''A'', ''B'']))
         \<and> plainCard ''B'' \<in> set (col_cards (visibleColumns (getSnapshot E (setFilterQuery '' B '' (laneStore [''A'', ''B'']))) ! 0))
         \<and> plainCard ''A'' \<notin> set (col_cards (visibleColumns (getSnapshot E (setFilterQuery '' B '' (laneStore [''A'', ''B'']))) ! 0)))"
proof -
  let ?S = "setFilterQuery '' B '' (laneStore [''A'', ''B''])"
  have q: "toLowerCase (trim (query (boardFilter ?S))) = ''b''"
    by (simp add: setFilterQuery_def laneStore_def trim_def trimEnd_def trimStart_def isSpace_def
        toLowerCase_def lowerChar_def isUpper_def)
  have t: "normalizeTagFilter (tag (boardFilter ?S)) = []"
    by (simp add: setFilterQuery_def laneStore_def trim_def trimEnd_def trimStart_def
        toLowerCase_def normalizeTagFilter_def)
  have e: "query (boardFilter (laneStore [''A'', ''B''])) = [] \<and> tag (boardFilter (laneStore [''A'', ''B''])) = []"
    by (simp add: laneStore_def)
  have cols: "columns (board ?S) = [\<lparr> col_id = ''lane'', col_title = ''Lane'', col_wipLimit = None,
                              col_cards = [plainCard ''A'', plainCard ''B''] \<rparr>]"
    by (simp add: setFilterQuery_def laneStore_def)
  have sa: "\<not> includesStr (card_searchText (plainCard ''A'')) ''b''"
    by (simp add: plainCard_def toLowerCase_def lowerChar_def isUpper_def startsWith_def)
  have sb: "includesStr (card_searchText (plainCard ''B'')) ''b''"
    by (simp add: plainCard_def toLowerCase_def lowerChar_def isUpper_def startsWith_def)
  have ne: "plainCard ''A'' \<noteq> plainCard ''B''"
    by (simp add: plainCard_def)
  {
    fix E
    have full: "visibleColumns (getSnapshot E (laneStore [''A'', ''B''])) = columns (getBoard E (laneStore [''A'', ''B'']))"
      using filter_leaves_document [of E "[]" "laneStore [''A'', ''B'']" "[]"] e by blast
    have "\<forall>i < length (columns (board ?S)). \<forall>c.
             c \<in> set (col_cards (visibleColumns (getSnapshot E ?S) ! i)) \<longleftrightarrow>
               c \<in> set (col_cards (columns (board ?S) ! i))
               \<and> (toLowerCase (trim (query (boardFilter ?S))) \<noteq> [] \<longrightarrow>
                    includesStr (card_searchText c) (toLowerCase (trim (query (boardFilter ?S)))))
               \<and> (normalizeTagFilter (tag (boardFilter ?S)) \<noteq> [] \<longrightarrow>
                    normalizeTagFilter (tag (boardFilter ?S)) \<in> set (card_tags c))"
      using filter_leaves_document [of E "[]" ?S "[]"] q by simp
    then have "\<forall>c. c \<in> set (col_cards (visibleColumns (getSnapshot E ?S) ! 0)) \<longleftrightarrow>
               c \<in> set [plainCard ''A'', plainCard ''B''] \<and> includesStr (card_searchText c) ''b''"
      using q t cols by simp
    then have "plainCard ''B'' \<in> set (col_cards (visibleColumns (getSnapshot E ?S) ! 0))
         \<and> plainCard ''A'' \<notin> set (col_cards (visibleColumns (getSnapshot E ?S) ! 0))"
      using sa sb ne by simp
    note this full
  }
  then show ?thesis using q e by simp
qed

section \<open>Moving cards and bulk insertion\<close>

text \<open>
  An operation that names a column the document does not have, or \<open>moveCard\<close> with a card
  its source column does not have, leaves the store as it is. Within one column
  \<open>moveCard\<close> removes the card, clamps the target index to the list after the removal,
  decrements it when the card came from an earlier position, and inserts there.
\<close>

lemma findIndex_None: "findIndex P xs = None \<longleftrightarrow> (\<forall>x \<in> set xs. \<not> P x)"
  by (induction xs) (auto split: option.splits)

lemma findIndex_Some: "findIndex P xs = Some i \<Longrightarrow> i < length xs \<and> P (xs ! i)"
  by (induction xs arbitrary: i) (auto split: if_splits option.splits)

lemma find_None_set: "find P xs = None \<longleftrightarrow> (\<forall>x \<in> set xs. \<not> P x)"
  by (induction xs) auto

lemma store_board_eq: "S\<lparr> board := (board S)\<lparr> columns := columns (board S) \<rparr> \<rparr> = S"
  by simp

lemma unknown_column_noop:
  assumes "\<forall>column \<in> set (columns (board S)). col_id column \<noteq> columnId"
  shows "renameColumn columnId title S = S"
    and "setColumnWipLimit columnId limit S = S"
    and "deleteColumn columnId S = S"
    and "moveColumn columnId k S = S"
    and "addCard columnId newCard placement S = S"
    and "snd (insertCardsFromParsedLines columnId cards position S) = S"
    and "updateCard E columnId cardId updater S = S"
    and "deleteCard columnId cardId S = S"
    and "clearColumnCards columnId S = (0, S)"
    and "archiveColumnCards columnId S = (0, S)"
    and "moveCard columnId cardId targetColumnId k S = S"
    and "moveCard sourceColumnId cardId columnId k S = S"
proof -
  have m: "map (\<lambda>column. if col_id column = columnId then f column else column) (columns (board S))
      = columns (board S)" for f
    using assms by (simp add: map_idI)
  have m': "map (\<lambda>column. if col_id column \<noteq> columnId then column else f column) (columns (board S))
      = columns (board S)" for f
    using assms by (simp add: map_idI)
  have fi: "findIndex (\<lambda>column. col_id column = columnId) (columns (board S)) = None"
    using assms by (simp add: findIndex_None)
  have fd: "find (\<lambda>entry. col_id entry = columnId) (columns (board S)) = None"
    using assms by (simp add: find_None_set)
  show "renameColumn columnId title S = S" by (simp add: renameColumn_def m)
  show "setColumnWipLimit columnId limit S = S" by (simp add: setColumnWipLimit_def m)
  show "deleteColumn columnId S = S" using assms by (simp add: deleteColumn_def filter_id_conv)
  show "moveColumn columnId k S = S" by (simp add: moveColumn_def fi)
  show "addCard columnId newCard placement S = S" by (simp add: addCard_def m')
  show "snd (insertCardsFromParsedLines columnId cards position S) = S"
    by (simp add: insertCardsFromParsedLines_def m')
  show "updateCard E columnId cardId updater S = S" by (simp add: updateCard_def m')
  show "deleteCard columnId cardId S = S" by (simp add: deleteCard_def m)
  show "clearColumnCards columnId S = (0, S)" by (simp add: clearColumnCards_def fd)
  show "archiveColumnCards columnId S = (0, S)" by (simp add: archiveColumnCards_def fd)
  show "moveCard columnId cardId targetColumnId k S = S" by (simp add: moveCard_def fi)
  show "moveCard sourceColumnId cardId columnId k S = S"
    by (simp add: moveCard_def fi split: option.splits)
qed

lemma moveCard_unknown_card:
  assumes "findIndex (\<lambda>column. col_id column = sourceColumnId) (columns (board S)) = Some i"
    and "\<forall>c \<in> set (col_cards (columns (board S) ! i)). card_id c \<noteq> cardId"
  shows "moveCard sourceColumnId cardId targetColumnId k S = S"
proof -
  have "findIndex (\<lambda>c. card_id c = cardId) (col_cards (columns (board S) ! i)) = None"
    using assms(2) by (simp add: findIndex_None)
  then show ?thesis using assms(1) by (simp add: moveCard_def Let_def split: option.splits)
qed

lemma moveCard_same_column:
  assumes "findIndex (\<lambda>column. col_id column = columnId) (columns (board S)) = Some i"
    and "findIndex (\<lambda>c. card_id c = cardId) (col_cards (columns (board S) ! i)) = Some j"
  shows "columns (board (moveCard columnId cardId columnId k S)) =
     (columns (board S))[i := (columns (board S) ! i)
        \<lparr> col_cards :=
            (let remaining = spliceRemove j (col_cards (columns (board S) ! i));
                 clamped = max 0 (min k (int (length remaining)));
                 insertIndex = (if int j < clamped then clamped - 1 else clamped)
             in take (nat insertIndex) remaining @ [col_cards (columns (board S) ! i) ! j]
                @ drop (nat insertIndex) remaining) \<rparr>]"
proof -
  have i: "i < length (columns (board S))" using findIndex_Some [OF assms(1)] by simp
  show ?thesis
    using assms i by (simp add: moveCard_def Let_def spliceInsert_def min_def max_def)
qed

text \<open>
  Claim C2, evaluated on its examples. \<open>moveCard\<close> clamps the target index against the
  target list after the removal and then still decrements it when the card came from an
  earlier position of the same column. For the column \<open>[A, B, C]\<close>, moving \<open>A\<close> to
  index 3 therefore gives \<open>[B, A, C]\<close>: the index is clamped to 2 and decremented to 1.
  The claim and the repository's store test (moves a card to bottom within the same
  column) expect \<open>[B, C, A]\<close>. In \<open>[A, B, C, D]\<close>, moving \<open>B\<close> to index 2 changes
  nothing, and so does moving it to index 1.
\<close>

theorem moveCard_same_column_examples:
  "(\<forall>E. map card_id (col_cards (hd (columns (getBoard E
       (moveCard ''lane'' ''A'' ''lane'' 3 (laneStore [''A'', ''B'', ''C'']))))))
     = [''B'', ''A'', ''C''])
   \<and> moveCard ''lane'' ''B'' ''lane'' 2 (laneStore [''A'', ''B'', ''C'', ''D''])
       = laneStore [''A'', ''B'', ''C'', ''D'']
   \<and> moveCard ''lane'' ''B'' ''lane'' 1 (laneStore [''A'', ''B'', ''C'', ''D''])
       = laneStore [''A'', ''B'', ''C'', ''D'']"
proof -
  have m: "moveCard ''lane'' ''A'' ''lane'' 3 (laneStore [''A'', ''B'', ''C''])
           = laneStore [''B'', ''A'', ''C'']"
    by (simp add: moveCard_def laneStore_def plainCard_def spliceRemove_def spliceInsert_def Let_def)
  have g: "map card_id (col_cards (hd (columns (getBoard E (laneStore ns))))) = ns" for E ns
    by (simp add: getBoard_def cloneBoard_def laneStore_def cloneCard_def normalizeCard_def
        plainCard_def comp_def Let_def)
  have b2: "moveCard ''lane'' ''B'' ''lane'' 2 (laneStore [''A'', ''B'', ''C'', ''D''])
       = laneStore [''A'', ''B'', ''C'', ''D'']"
    by (simp add: moveCard_def laneStore_def plainCard_def spliceRemove_def spliceInsert_def Let_def)
  have b1: "moveCard ''lane'' ''B'' ''lane'' 1 (laneStore [''A'', ''B'', ''C'', ''D''])
       = laneStore [''A'', ''B'', ''C'', ''D'']"
    by (simp add: moveCard_def laneStore_def plainCard_def spliceRemove_def spliceInsert_def Let_def)
  show ?thesis by (simp add: m g b1 b2)
qed

text \<open>
  Claim C9, evaluated where it fails. \<open>insertCardsFromParsedLines\<close> into a column id the
  document does not have leaves the store as it is, yet returns the number of cards it
  was given, not the number of cards inserted (which is 0); \<open>clearColumnCards\<close> and
  \<open>archiveColumnCards\<close> return 0 for an unknown column.
\<close>

theorem insert_into_unknown_column_reports_cards:
  "insertCardsFromParsedLines ''missing'' [plainCard ''X'', plainCard ''Y''] After (laneStore [''A''])
     = (2, laneStore [''A''])
   \<and> clearColumnCards ''missing'' (laneStore [''A'']) = (0, laneStore [''A''])
   \<and> archiveColumnCards ''missing'' (laneStore [''A'']) = (0, laneStore [''A''])"
  by (simp add: insertCardsFromParsedLines_def clearColumnCards_def archiveColumnCards_def
      laneStore_def)

section \<open>Merging header columns and body sections\<close>

lemma header_loop:
  "foldl (\<lambda>(seen, cols) definition. (insert (def_id definition) seen, cols @ [f definition]))
         (seen0, cols0) fm
   = (seen0 \<union> set (map def_id fm), cols0 @ map f fm)"
  by (induction fm arbitrary: seen0 cols0) auto

lemma body_loop:
  "foldl (\<lambda>cols bodyColumn. if pc_id bodyColumn \<in> seen then cols else cols @ [g bodyColumn])
         cols0 body
   = cols0 @ map g (filter (\<lambda>s. pc_id s \<notin> seen) body)"
  by (induction body arbitrary: cols0) auto

lemma find_app:
  "find P (xs @ ys) = (case find P xs of Some x \<Rightarrow> Some x | None \<Rightarrow> find P ys)"
  by (induction xs) auto

lemma bodyById_loop:
  "foldl (\<lambda>m column. m(pc_id column \<mapsto> column)) m0 body i =
     (case find (\<lambda>s. pc_id s = i) (rev body) of Some s \<Rightarrow> Some s | None \<Rightarrow> m0 i)"
proof (induction body arbitrary: m0)
  case Nil
  then show ?case by simp
next
  case (Cons b body)
  have "foldl (\<lambda>m column. m(pc_id column \<mapsto> column)) m0 (b # body) i =
      (case find (\<lambda>s. pc_id s = i) (rev body) of
         Some s \<Rightarrow> Some s | None \<Rightarrow> (m0(pc_id b \<mapsto> b)) i)"
    unfolding foldl_Cons by (rule Cons.IH)
  also have "\<dots> = (case find (\<lambda>s. pc_id s = i) (rev (b # body)) of
         Some s \<Rightarrow> Some s | None \<Rightarrow> m0 i)"
    by (simp add: find_app split: option.splits)
  finally show ?case .
qed

lemma bodyByIdMap_find: "bodyByIdMap body i = find (\<lambda>s. pc_id s = i) (rev body)"
  unfolding bodyByIdMap_def bodyById_loop by (simp split: option.splits)

lemma mergeColumns_shape:
  "mergeColumns fm body =
     map (mergeDefinition (bodyByIdMap body)) fm
     @ map (\<lambda>s. \<lparr> col_id = pc_id s, col_title = pc_title s, col_wipLimit = None,
                  col_cards = pc_cards s \<rparr>)
           (filter (\<lambda>s. pc_id s \<notin> set (map def_id fm)) body)"
  by (simp add: mergeColumns_def Let_def header_loop body_loop)

text \<open>
  Claim C4. The merged column list is the header's definitions in header order, each with
  its own id and limit and with the cards of the body section of the same id (of the last
  such section, should the body repeat an id; no cards if there is none), followed by the
  body sections whose id the header does not declare, in body order and without a limit.
  Header columns \<open>[b, a]\<close> and body sections \<open>[a, c]\<close> give the order \<open>[b, a, c]\<close>.
\<close>

theorem merge_header_then_body:
  "mergeColumns fm body =
     map (\<lambda>d. \<lparr> col_id = def_id d,
                col_title = (if def_title d \<noteq> [] then def_title d
                             else (case find (\<lambda>s. pc_id s = def_id d) (rev body) of
                                     Some s \<Rightarrow> if pc_title s \<noteq> [] then pc_title s else ''Untitled''
                                   | None \<Rightarrow> ''Untitled'')),
                col_wipLimit = def_wipLimit d,
                col_cards = (case find (\<lambda>s. pc_id s = def_id d) (rev body) of
                               Some s \<Rightarrow> pc_cards s
                             | None \<Rightarrow> []) \<rparr>) fm
     @ map (\<lambda>s. \<lparr> col_id = pc_id s, col_title = pc_title s, col_wipLimit = None,
                  col_cards = pc_cards s \<rparr>)
           (filter (\<lambda>s. pc_id s \<notin> set (map def_id fm)) body)
   \<and> map col_id (mergeColumns fm body) =
       map def_id fm @ filter (\<lambda>i. i \<notin> set (map def_id fm)) (map pc_id body)"
proof -
  have d: "mergeDefinition (bodyByIdMap body) =
      (\<lambda>d. \<lparr> col_id = def_id d,
                col_title = (if def_title d \<noteq> [] then def_title d
                             else (case find (\<lambda>s. pc_id s = def_id d) (rev body) of
                                     Some s \<Rightarrow> if pc_title s \<noteq> [] then pc_title s else ''Untitled''
                                   | None \<Rightarrow> ''Untitled'')),
                col_wipLimit = def_wipLimit d,
                col_cards = (case find (\<lambda>s. pc_id s = def_id d) (rev body) of
                               Some s \<Rightarrow> pc_cards s
                             | None \<Rightarrow> []) \<rparr>)"
    by (rule ext) (simp add: mergeDefinition_def bodyByIdMap_find)
  have ids: "map col_id (mergeColumns fm body) =
       map def_id fm @ filter (\<lambda>i. i \<notin> set (map def_id fm)) (map pc_id body)"
    unfolding mergeColumns_shape by (simp add: mergeDefinition_def comp_def filter_map)
  show ?thesis using mergeColumns_shape [of fm body] d ids by simp
qed

theorem merge_header_then_body_witness:
  "map col_id (mergeColumns [headerColumn ''b'' ''B'', headerColumn ''a'' ''A'']
                            [bodySection ''a'' ''A'' [''x''], bodySection ''c'' ''C'' [''y'']])
     = [''b'', ''a'', ''c'']
   \<and> map col_cards (mergeColumns [headerColumn ''b'' ''B'', headerColumn ''a'' ''A'']
                            [bodySection ''a'' ''A'' [''x''], bodySection ''c'' ''C'' [''y'']])
     = [[], [plainCard ''x''], [plainCard ''y'']]
   \<and> map col_wipLimit (mergeColumns [headerColumn ''b'' ''B'', headerColumn ''a'' ''A'']
                            [bodySection ''a'' ''A'' [''x''], bodySection ''c'' ''C'' [''y'']])
     = [None, None, None]"
  using merge_header_then_body [of "[headerColumn ''b'' ''B'', headerColumn ''a'' ''A'']"
      "[bodySection ''a'' ''A'' [''x''], bodySection ''c'' ''C'' [''y'']]"]
  by (simp add: headerColumn_def bodySection_def)

section \<open>Parse errors\<close>

lemma parse_after_header:
  "frontmatterRegex (normalizeNewlines s) = Some (g, body) \<Longrightarrow> parseYaml E g = YamlValue v \<Longrightarrow>
   isObject v \<Longrightarrow> getField v ''kanban'' = Some (YBool True) \<Longrightarrow>
   \<exists>doc m. parseBoardMarkdown E s n = Inr (doc, m)"
  by (simp add: parseBoardMarkdown_def splitFrontmatter_def Let_def)

text \<open>
  Claim C3. \<open>parseBoardMarkdown\<close> fails in exactly three cases, and each failure is a
  \<open>BoardParseError\<close>: the text does not start with a header block; the header block is
  not decoded to an object (the decoder throws, or it returns a scalar or nothing); the
  decoded header has no \<open>kanban\<close> entry that is exactly \<open>true\<close> (a decoded sequence is
  an object without such an entry). The messages of the cases differ from each other.
  Every other text is parsed to a document.
\<close>

theorem parse_fails_exactly_on_header:
  "(case frontmatterRegex (normalizeNewlines s) of
      None \<Rightarrow>
        parseBoardMarkdown E s n = Inl (BoardParseError ''Kanban board is missing YAML frontmatter.'')
    | Some (g, body) \<Rightarrow>
        (case parseYaml E g of
           YamlThrows \<Rightarrow>
             parseBoardMarkdown E s n =
               Inl (BoardParseError ''Kanban frontmatter could not be parsed as YAML.'')
         | YamlValue v \<Rightarrow>
             if \<not> isObject v then
               parseBoardMarkdown E s n =
                 Inl (BoardParseError ''Kanban frontmatter must be a YAML object.'')
             else if getField v ''kanban'' \<noteq> Some (YBool True) then
               parseBoardMarkdown E s n =
                 Inl (BoardParseError ''File frontmatter is missing `kanban: true`.'')
             else (\<exists>doc m. parseBoardMarkdown E s n = Inr (doc, m))))
   \<and> ((\<exists>e. parseBoardMarkdown E s n = Inl e) \<longleftrightarrow>
        frontmatterRegex (normalizeNewlines s) = None
        \<or> (\<exists>g body. frontmatterRegex (normalizeNewlines s) = Some (g, body)
              \<and> (parseYaml E g = YamlThrows \<or> (\<exists>v. parseYaml E g = YamlValue v \<and> \<not> isObject v)))
        \<or> (\<exists>g body v. frontmatterRegex (normalizeNewlines s) = Some (g, body)
              \<and> parseYaml E g = YamlValue v \<and> isObject v
              \<and> getField v ''kanban'' \<noteq> Some (YBool True)))
   \<and> distinct [''Kanban board is missing YAML frontmatter.'',
                 ''Kanban frontmatter could not be parsed as YAML.'',
                 ''Kanban frontmatter must be a YAML object.'',
                 ''File frontmatter is missing `kanban: true`.'']"
proof -
  have cases: "(case frontmatterRegex (normalizeNewlines s) of
      None \<Rightarrow>
        parseBoardMarkdown E s n = Inl (BoardParseError ''Kanban board is missing YAML frontmatter.'')
    | Some (g, body) \<Rightarrow>
        (case parseYaml E g of
           YamlThrows \<Rightarrow>
             parseBoardMarkdown E s n =
               Inl (BoardParseError ''Kanban frontmatter could not be parsed as YAML.'')
         | YamlValue v \<Rightarrow>
             if \<not> isObject v then
               parseBoardMarkdown E s n =
                 Inl (BoardParseError ''Kanban frontmatter must be a YAML object.'')
             else if getField v ''kanban'' \<noteq> Some (YBool True) then
               parseBoardMarkdown E s n =
                 Inl (BoardParseError ''File frontmatter is missing `kanban: true`.'')
             else (\<exists>doc m. parseBoardMarkdown E s n = Inr (doc, m))))"
  proof (cases "frontmatterRegex (normalizeNewlines s)")
    case None
    then show ?thesis by (simp add: parseBoardMarkdown_def splitFrontmatter_def)
  next
    case (Some p)
    obtain g body where p: "p = (g, body)" by (cases p)
    show ?thesis
    proof (cases "parseYaml E g")
      case YamlThrows
      then show ?thesis using Some p by (simp add: parseBoardMarkdown_def splitFrontmatter_def)
    next
      case (YamlValue v)
      show ?thesis
      proof (cases "isObject v \<and> getField v ''kanban'' = Some (YBool True)")
        case True
        then show ?thesis
          using Some p YamlValue parse_after_header [of s g body E v n] by simp
      next
        case False
        then show ?thesis
          using Some p YamlValue by (auto simp: parseBoardMarkdown_def splitFrontmatter_def)
      qed
    qed
  qed
  have iff: "(\<exists>e. parseBoardMarkdown E s n = Inl e) \<longleftrightarrow>
        frontmatterRegex (normalizeNewlines s) = None
        \<or> (\<exists>g body. frontmatterRegex (normalizeNewlines s) = Some (g, body)
              \<and> (parseYaml E g = YamlThrows \<or> (\<exists>v. parseYaml E g = YamlValue v \<and> \<not> isObject v)))
        \<or> (\<exists>g body v. frontmatterRegex (normalizeNewlines s) = Some (g, body)
              \<and> parseYaml E g = YamlValue v \<and> isObject v
              \<and> getField v ''kanban'' \<noteq> Some (YBool True))"
    using cases
    by (auto split: option.splits yamlResult.splits if_splits)
  have msgs: "distinct [''Kanban board is missing YAML frontmatter.'',
                 ''Kanban frontmatter could not be parsed as YAML.'',
                 ''Kanban frontmatter must be a YAML object.'',
                 ''File frontmatter is missing `kanban: true`.'']"
    by simp
  from cases iff msgs show ?thesis by blast
qed

theorem parse_fails_exactly_on_header_witness:
  "parseBoardMarkdown exampleRuntime ''## [a] A'' 0
     = Inl (BoardParseError ''Kanban board is missing YAML frontmatter.'')
   \<and> parseBoardMarkdown exampleRuntime ''---\<newline>kanban: [true\<newline>---\<newline>'' 0
     = Inl (BoardParseError ''Kanban frontmatter could not be parsed as YAML.'')
   \<and> parseBoardMarkdown exampleRuntime ''---\<newline>Just a note\<newline>---\<newline>'' 0
     = Inl (BoardParseError ''Kanban frontmatter must be a YAML object.'')
   \<and> parseBoardMarkdown exampleRuntime ''---\<newline>boardTitle: Not a board\<newline>---\<newline>'' 0
     = Inl (BoardParseError ''File frontmatter is missing `kanban: true`.'')
   \<and> (\<exists>doc m. parseBoardMarkdown exampleRuntime ''---\<newline>kanban: true\<newline>---\<newline>'' 0 = Inr (doc, m))"
proof -
  have f1: "frontmatterRegex (normalizeNewlines ''## [a] A'') = None" by code_simp
  have f2: "frontmatterRegex (normalizeNewlines ''---\<newline>kanban: [true\<newline>---\<newline>'')
      = Some (''kanban: [true'', [])" by code_simp
  have y2: "parseYaml exampleRuntime ''kanban: [true'' = YamlThrows" by code_simp
  have f3: "frontmatterRegex (normalizeNewlines ''---\<newline>Just a note\<newline>---\<newline>'')
      = Some (''Just a note'', [])" by code_simp
  have y3: "parseYaml exampleRuntime ''Just a note'' = YamlValue (YStr ''Just a note'')" by code_simp
  have f4: "frontmatterRegex (normalizeNewlines ''---\<newline>boardTitle: Not a board\<newline>---\<newline>'')
      = Some (''boardTitle: Not a board'', [])" by code_simp
  have y4: "parseYaml exampleRuntime ''boardTitle: Not a board''
      = YamlValue (YMap [(''boardTitle'', YStr ''Not a board'')])" by code_simp
  have f5: "frontmatterRegex (normalizeNewlines ''---\<newline>kanban: true\<newline>---\<newline>'')
      = Some (''kanban: true'', [])" by code_simp
  have y5: "parseYaml exampleRuntime ''kanban: true'' = YamlValue (YMap [(''kanban'', YBool True)])"
    by code_simp
  have 1: "parseBoardMarkdown exampleRuntime ''## [a] A'' 0
     = Inl (BoardParseError ''Kanban board is missing YAML frontmatter.'')"
    using parse_fails_exactly_on_header [where s = "''## [a] A''" and E = exampleRuntime and n = 0] f1 by simp
  have 2: "parseBoardMarkdown exampleRuntime ''---\<newline>kanban: [true\<newline>---\<newline>'' 0
     = Inl (BoardParseError ''Kanban frontmatter could not be parsed as YAML.'')"
    using parse_fails_exactly_on_header [where s = "''---\<newline>kanban: [true\<newline>---\<newline>''" and E = exampleRuntime and n = 0] f2 y2
    by simp
  have 3: "parseBoardMarkdown exampleRuntime ''---\<newline>Just a note\<newline>---\<newline>'' 0
     = Inl (BoardParseError ''Kanban frontmatter must be a YAML object.'')"
    using parse_fails_exactly_on_header [where s = "''---\<newline>Just a note\<newline>---\<newline>''" and E = exampleRuntime and n = 0] f3 y3
    by (simp add: isObject_def)
  have 4: "parseBoardMarkdown exampleRuntime ''---\<newline>boardTitle: Not a board\<newline>---\<newline>'' 0
     = Inl (BoardParseError ''File frontmatter is missing `kanban: true`.'')"
    using parse_fails_exactly_on_header [where s = "''---\<newline>boardTitle: Not a board\<newline>---\<newline>''" and E = exampleRuntime and n = 0] f4 y4
    by (simp add: isObject_def getField_def)
  have 5: "\<exists>doc m. parseBoardMarkdown exampleRuntime ''---\<newline>kanban: true\<newline>---\<newline>'' 0 = Inr (doc, m)"
    using parse_fails_exactly_on_header [where s = "''---\<newline>kanban: true\<newline>---\<newline>''" and E = exampleRuntime and n = 0] f5 y5
    by (simp add: isObject_def getField_def)
  from 1 2 3 4 5 show ?thesis by blast
qed

section \<open>Derived fields of cards\<close>


lemma tagChar_not_hash: "tagChar c \<Longrightarrow> c \<noteq> CHR ''#''"
  by (auto simp: tagChar_def isAsciiLetter_def isDigit_def)




































section \<open>Parsing and serializing, evaluated\<close>

text \<open>
  Claim C1, evaluated where it fails. The parser takes the first \<open>due::\<close> line of a card
  as the due date and keeps a second one as description text; the serializer writes the
  description before the due line. For a card with two due lines the two therefore
  change places in every pass: the text \<open>twoDueText\<close> parses, its serialization
  \<open>twoDuePass1\<close> parses and serializes to the different text \<open>twoDuePass2\<close>, and that one
  goes back to \<open>twoDuePass1\<close>. The serialized parse result is not a fixed point of a
  further pass.
\<close>

theorem two_due_lines_never_settle:
  "reserialize exampleRuntime twoDueText = Inr twoDuePass1
   \<and> reserialize exampleRuntime twoDuePass1 = Inr twoDuePass2
   \<and> reserialize exampleRuntime twoDuePass2 = Inr twoDuePass1
   \<and> twoDuePass1 \<noteq> twoDuePass2"
proof -
  have 1: "reserialize exampleRuntime twoDueText = Inr twoDuePass1" by code_simp
  have 2: "reserialize exampleRuntime twoDuePass1 = Inr twoDuePass2" by code_simp
  have 3: "reserialize exampleRuntime twoDuePass2 = Inr twoDuePass1" by code_simp
  have 4: "twoDuePass1 \<noteq> twoDuePass2" by code_simp
  from 1 2 3 4 show ?thesis by blast
qed

text \<open>
  Claim C8, evaluated where it fails. The card line \<open>- [ ] [id]\<close> followed by one blank
  parses to a card whose title is empty, hence empty after trimming as well; the parser
  puts no placeholder in its place, as it does for a blank column title. Nor does the
  store: a card updated to a blank title keeps it.
\<close>

theorem blank_card_title_stays_empty:
  "(case parseBoardMarkdown exampleRuntime blankTitleText 0 of
      Inl e \<Rightarrow> []
    | Inr r \<Rightarrow> map (\<lambda>c. (card_id c, card_title c, trim (card_title c))) (allCards (fst r)))
   = [(''id'', [], [])]
   \<and> map (\<lambda>c. (card_id c, card_title c, trim (card_title c)))
         (allCards (getBoard exampleRuntime
            (updateCard exampleRuntime ''lane'' ''A'' (\<lambda>c. c\<lparr> card_title := ''  '' \<rparr>)
               (laneStore [''A'']))))
     = [(''A'', ''  '', [])]"
  by code_simp

end
